theory Spec2Isabelle
  imports Main
begin

section \<open>Python values, dictionaries and exceptions\<close>

text \<open>
  The bot keeps one JSON document per chat. The values that flow through the code are the
  values of such documents: strings, integers, booleans, \<open>None\<close>, lists and dictionaries
  with string keys. A dictionary is an association list in insertion order, read with
  \<open>map_of\<close>. No function of the program inspects a floating point number, so numbers
  are integers here.
\<close>

datatype json =
    JNull
  | JBool bool
  | JInt int
  | JStr string
  | JList "json list"
  | JObj "(string \<times> json) list"

type_synonym dict = "(string \<times> json) list"

text \<open>
  Exceptions are values. \<open>CosmosResourceNotFoundError\<close> is the store's "no such item";
  \<open>AsyncioTimeoutError\<close> is \<open>asyncio.TimeoutError\<close>, which \<open>asyncio.wait_for\<close> raises
  when its time is over; \<open>OtherException\<close> stands for any other exception derived from
  Python's \<open>Exception\<close> that a library call raises (transport, authentication, service
  errors; the Telegram library reports its own timeouts with an error class of its own).
\<close>

datatype exn =
    KeyError string
  | TypeError
  | IndexError
  | ValueError
  | AttributeError
  | CosmosResourceNotFoundError
  | AsyncioTimeoutError
  | OtherException

text \<open>Python's \<open>bool(v)\<close>.\<close>

fun truthy :: "json \<Rightarrow> bool" where
  "truthy JNull = False"
| "truthy (JBool b) = b"
| "truthy (JInt i) = (i \<noteq> 0)"
| "truthy (JStr s) = (s \<noteq> [])"
| "truthy (JList xs) = (xs \<noteq> [])"
| "truthy (JObj d) = (d \<noteq> [])"

text \<open>
  \<open>v[k]\<close> for a string key \<open>k\<close>: a dictionary without the key raises \<open>KeyError\<close>, and
  every other kind of value raises \<open>TypeError\<close> (a string or a list wants an integer index,
  the rest are not subscriptable).
\<close>

fun subscript :: "json \<Rightarrow> string \<Rightarrow> exn + json" where
  "subscript (JObj d) k = (case map_of d k of None \<Rightarrow> Inl (KeyError k) | Some v \<Rightarrow> Inr v)"
| "subscript v k = Inl TypeError"

text \<open>\<open>xs[i:]\<close>: a negative start counts from the end and is clamped at the front.\<close>

definition py_slice_from :: "int \<Rightarrow> 'a list \<Rightarrow> 'a list" where
  "py_slice_from i xs =
     (if i < 0 then drop (nat (int (length xs) + i)) xs else drop (nat i) xs)"

text \<open>The dictionary literal \<open>{"role": r, "content": c}\<close>.\<close>

definition turn :: "string \<Rightarrow> string \<Rightarrow> json" where
  "turn r c = JObj [(''role'', JStr r), (''content'', JStr c)]"

section \<open>The context window builder\<close>

text \<open>
  \<open>_prepare_and_truncate_history_for_llm\<close> has the same body in \<open>bot.py\<close> and in the
  webhook handler, up to the wording of its log lines. The \<open>chat_id\<close> argument is only
  logged and is left out. \<open>full_history[0]["role"]\<close> is evaluated outside any
  \<open>try\<close>, so its exception leaves the function.
\<close>

fun prepare_and_truncate_history_for_llm :: "json list \<Rightarrow> int \<Rightarrow> exn + json list" where
  "prepare_and_truncate_history_for_llm [] max_messages = Inr []"
| "prepare_and_truncate_history_for_llm (first # rest) max_messages =
     (case subscript first ''role'' of
        Inl e \<Rightarrow> Inl e
      | Inr role \<Rightarrow>
          let system_message_obj = (if role = JStr ''system'' then Some first else None);
              conversation_messages = (if role = JStr ''system'' then rest else first # rest);
              with_system = (\<lambda>conv. case system_message_obj of
                                 None \<Rightarrow> conv
                               | Some s \<Rightarrow> if truthy s then [s] @ conv else conv)
          in if int (length conversation_messages) > max_messages
             then Inr (with_system (py_slice_from (- max_messages) conversation_messages))
             else Inr (with_system conversation_messages))"

text \<open>
  What the conversation part of the window is: everything when it fits, else the slice
  \<open>conversation_messages[-max_messages:]\<close>.
\<close>

definition keep_last :: "int \<Rightarrow> 'a list \<Rightarrow> 'a list" where
  "keep_last n xs = (if int (length xs) > n then py_slice_from (- n) xs else xs)"

text \<open>Vocabulary of the claims about the window.\<close>

definition has_role :: "json \<Rightarrow> bool" where
  "has_role m = (case subscript m ''role'' of Inl e \<Rightarrow> False | Inr r \<Rightarrow> True)"

definition is_system :: "json \<Rightarrow> bool" where
  "is_system m = (subscript m ''role'' = Inr (JStr ''system''))"

section \<open>Effects\<close>

text \<open>
  A function that talks to the outside world returns the list of calls it made, in order,
  and either its value or the exception that left it. What each outside call answers is
  given by the environment: the store, the completion service, the Telegram chat, the clock.
\<close>

datatype chat_completion = ChatCompletion (choices: "string option list")

datatype event =
    ReadItem string
  | UpsertItem dict
  | CreateCompletion string "json list"
  | ReplyText string
  | EditText string
  | SendChatAction int

type_synonym 'a io = "event list \<times> (exn + 'a)"

definition return_io :: "'a \<Rightarrow> 'a io" where
  "return_io a = ([], Inr a)"

definition lift_io :: "exn + 'a \<Rightarrow> 'a io" where
  "lift_io r = ([], r)"

definition call_io :: "event \<Rightarrow> exn + 'a \<Rightarrow> 'a io" where
  "call_io ev r = ([ev], r)"

definition bind_io :: "'a io \<Rightarrow> ('a \<Rightarrow> 'b io) \<Rightarrow> 'b io" where
  "bind_io m f =
     (case m of
        (t, Inl e) \<Rightarrow> (t, Inl e)
      | (t, Inr a) \<Rightarrow> (case f a of (t', r) \<Rightarrow> (t @ t', r)))"

text \<open>\<open>try: m except Exception as e: h e\<close>.\<close>

definition catch_io :: "'a io \<Rightarrow> (exn \<Rightarrow> 'a io) \<Rightarrow> 'a io" where
  "catch_io m h =
     (case m of
        (t, Inl e) \<Rightarrow> (case h e of (t', r) \<Rightarrow> (t @ t', r))
      | (t, Inr a) \<Rightarrow> (t, Inr a))"

text \<open>
  The environment of one invocation. \<open>read_item\<close> and \<open>upsert_item\<close> are the Cosmos
  container client, \<open>create_completion\<close> is \<open>chat.completions.create\<close> (model name and
  messages; temperature and token limit are constants), the next three are the Telegram
  calls on the current chat, \<open>utcnow\<close> is the ISO timestamp the clock gives.
  In the webhook handler the clients are globals that may be unset, and the typing
  signaler runs as a concurrent task: \<open>typing_sends\<close> is how many typing actions that
  task gets to send during the turn. \<open>system_message_content\<close> is the text of the
  fixed system prompt of \<open>bot.py\<close>, a module constant that no function inspects.
\<close>

record env =
  read_item :: "string \<Rightarrow> exn + dict"
  upsert_item :: "dict \<Rightarrow> exn + dict"
  create_completion :: "string \<Rightarrow> json list \<Rightarrow> exn + chat_completion"
  reply_text :: "string \<Rightarrow> exn + unit"
  edit_text :: "string \<Rightarrow> exn + unit"
  send_chat_action :: "int \<Rightarrow> exn + unit"
  utcnow :: string
  async_container_client_set :: bool
  openrouter_client_set :: bool
  context_bot_set :: bool
  typing_sends :: nat
  system_message_content :: string

section \<open>Strings and dictionaries\<close>

text \<open>\<open>str(i)\<close> for an integer.\<close>

function digits :: "nat \<Rightarrow> string" where
  "digits n =
     (if n < 10 then [''0123456789'' ! n]
      else digits (n div 10) @ [''0123456789'' ! (n mod 10)])"
  by pat_completeness auto
termination
  by (relation "measure id") auto

declare digits.simps [simp del]

definition str_int :: "int \<Rightarrow> string" where
  "str_int i = (if i < 0 then CHR ''-'' # digits (nat (- i)) else digits (nat i))"

text \<open>
  \<open>s.strip()\<close>: the characters Python counts as whitespace, among the 256 that \<open>char\<close>
  has, are removed from both ends.
\<close>

definition isspace :: "char \<Rightarrow> bool" where
  "isspace c = ((of_char c :: nat) \<in> set [9, 10, 11, 12, 13, 28, 29, 30, 31, 32, 133, 160])"

definition strip :: "string \<Rightarrow> string" where
  "strip s = rev (dropWhile isspace (rev (dropWhile isspace s)))"

text \<open>\<open>d[k] = v\<close>: an existing key keeps its place, a new key goes to the end.\<close>

fun dict_set :: "string \<Rightarrow> json \<Rightarrow> dict \<Rightarrow> dict" where
  "dict_set k v [] = [(k, v)]"
| "dict_set k v ((k', v') # d) = (if k' = k then (k, v) # d else (k', v') # dict_set k v d)"

text \<open>\<open>d.get(k, default)\<close>.\<close>

definition dict_get :: "dict \<Rightarrow> string \<Rightarrow> json \<Rightarrow> json" where
  "dict_get d k dflt = (case map_of d k of None \<Rightarrow> dflt | Some v \<Rightarrow> v)"

section \<open>The history store adapter\<close>

subsection \<open>\<open>bot.py\<close>\<close>

definition get_chat_history_from_cosmos :: "env \<Rightarrow> int \<Rightarrow> (json list \<times> dict) io" where
  "get_chat_history_from_cosmos env chat_id_int =
     (let chat_id_str = str_int chat_id_int in
      catch_io
        (bind_io (call_io (ReadItem chat_id_str) (read_item env chat_id_str))
           (\<lambda>item_response.
              let history = dict_get item_response ''history'' (JList []);
                  metadata = filter (\<lambda>(k, v). k \<noteq> ''history'') item_response
              in return_io (case history of JList xs \<Rightarrow> xs | _ \<Rightarrow> [], metadata)))
        (\<lambda>e. case e of
                CosmosResourceNotFoundError \<Rightarrow> return_io ([], [])
              | _ \<Rightarrow> return_io ([], [])))"

text \<open>
  The body that \<open>save_chat_history_to_cosmos\<close> builds before the upsert. In \<open>bot.py\<close> a
  non-empty \<open>existing_metadata\<close> sets each creator field only if it has that key.
\<close>

definition item_body_of ::
  "string \<Rightarrow> json list \<Rightarrow> string \<Rightarrow> string \<Rightarrow> string \<Rightarrow> dict" where
  "item_body_of chat_id_str history_list user_id_str username_to_store current_utc_timestamp =
     [(''id'', JStr chat_id_str),
      (''chat_id'', JStr chat_id_str),
      (''history'', JList history_list),
      (''last_interactor_user_id'', JStr user_id_str),
      (''last_interactor_username'', JStr username_to_store),
      (''last_updated_timestamp'', JStr current_utc_timestamp)]"

definition save_chat_history_to_cosmos ::
  "env \<Rightarrow> int \<Rightarrow> json list \<Rightarrow> int \<Rightarrow> string option \<Rightarrow> bool \<Rightarrow> dict option \<Rightarrow> unit io" where
  "save_chat_history_to_cosmos env chat_id_int history_list interacting_user_id
       interacting_username is_initial_creation_or_reset existing_metadata =
     (let chat_id_str = str_int chat_id_int;
          user_id_str = str_int interacting_user_id;
          username_to_store =
            (case interacting_username of
               None \<Rightarrow> ''N/A''
             | Some u \<Rightarrow> if u \<noteq> [] then u else ''N/A'');
          current_utc_timestamp = utcnow env;
          item_body = item_body_of chat_id_str history_list user_id_str username_to_store
                        current_utc_timestamp;
          stamped = dict_set ''creator_username'' (JStr username_to_store)
                      (dict_set ''creator_user_id'' (JStr user_id_str) item_body);
          item_body =
            (if is_initial_creation_or_reset then stamped
             else case existing_metadata of
               None \<Rightarrow> stamped
             | Some md \<Rightarrow>
                 if md \<noteq> [] then
                   (let b1 = (case map_of md ''creator_user_id'' of
                                None \<Rightarrow> item_body
                              | Some v \<Rightarrow> dict_set ''creator_user_id'' v item_body)
                    in case map_of md ''creator_username'' of
                         None \<Rightarrow> b1
                       | Some v \<Rightarrow> dict_set ''creator_username'' v b1)
                 else stamped)
      in catch_io
           (bind_io (call_io (UpsertItem item_body) (upsert_item env item_body))
              (\<lambda>_. return_io ()))
           (\<lambda>e. return_io ()))"

subsection \<open>The webhook handler\<close>

definition get_chat_history_from_cosmos_webhook ::
  "env \<Rightarrow> int \<Rightarrow> (json list \<times> dict) io" where
  "get_chat_history_from_cosmos_webhook env chat_id_int =
     (if \<not> async_container_client_set env then return_io ([], [])
      else
        let chat_id_str = str_int chat_id_int in
        catch_io
          (bind_io (call_io (ReadItem chat_id_str) (read_item env chat_id_str))
             (\<lambda>item_response.
                let history = dict_get item_response ''history'' (JList []);
                    metadata = filter (\<lambda>(k, v). k \<noteq> ''history'') item_response
                in return_io (case history of JList xs \<Rightarrow> xs | _ \<Rightarrow> [], metadata)))
          (\<lambda>e. case e of
                  CosmosResourceNotFoundError \<Rightarrow> return_io ([], [])
                | _ \<Rightarrow> return_io ([], [])))"

definition save_chat_history_to_cosmos_webhook ::
  "env \<Rightarrow> int \<Rightarrow> json list \<Rightarrow> int \<Rightarrow> string option \<Rightarrow> bool \<Rightarrow> dict option \<Rightarrow> unit io" where
  "save_chat_history_to_cosmos_webhook env chat_id_int history_list interacting_user_id
       interacting_username is_initial_creation_or_reset existing_metadata =
     (if \<not> async_container_client_set env then return_io ()
      else
        let chat_id_str = str_int chat_id_int;
            user_id_str = str_int interacting_user_id;
            username_to_store =
              (case interacting_username of
                 None \<Rightarrow> ''N/A''
               | Some u \<Rightarrow> if u \<noteq> [] then u else ''N/A'');
            current_utc_timestamp = utcnow env;
            item_body = item_body_of chat_id_str history_list user_id_str username_to_store
                          current_utc_timestamp;
            stamped = dict_set ''creator_username'' (JStr username_to_store)
                        (dict_set ''creator_user_id'' (JStr user_id_str) item_body);
            item_body =
              (if is_initial_creation_or_reset then stamped
               else case existing_metadata of
                 None \<Rightarrow> stamped
               | Some md \<Rightarrow>
                   if md \<noteq> [] then
                     dict_set ''creator_username''
                       (dict_get md ''creator_username'' (JStr username_to_store))
                       (dict_set ''creator_user_id''
                          (dict_get md ''creator_user_id'' (JStr user_id_str)) item_body)
                   else stamped)
        in catch_io
             (bind_io (call_io (UpsertItem item_body) (upsert_item env item_body))
                (\<lambda>_. return_io ()))
             (\<lambda>e. return_io ()))"

section \<open>The completion client\<close>

text \<open>
  The log preview is computed before the \<open>try\<close>: for each of the last messages it reads
  \<open>msg['role']\<close> and \<open>msg['content'][:k]\<close>. Only whether it raises matters, the
  text goes to the log. Slicing works on strings and lists; on any other value it raises
  (on a dictionary \<open>TypeError\<close> up to Python 3.11 and \<open>KeyError\<close> from 3.12 on, which
  the model does not tell apart).
\<close>

fun slice_prefix :: "json \<Rightarrow> nat \<Rightarrow> exn + json" where
  "slice_prefix (JStr s) k = Inr (JStr (take k s))"
| "slice_prefix (JList xs) k = Inr (JList (take k xs))"
| "slice_prefix v k = Inl TypeError"

definition preview_entry :: "nat \<Rightarrow> json \<Rightarrow> exn + unit" where
  "preview_entry k msg =
     (case subscript msg ''role'' of
        Inl e \<Rightarrow> Inl e
      | Inr r \<Rightarrow>
          (case subscript msg ''content'' of
             Inl e \<Rightarrow> Inl e
           | Inr c \<Rightarrow> (case slice_prefix c k of Inl e \<Rightarrow> Inl e | Inr p \<Rightarrow> Inr ())))"

fun preview_all :: "nat \<Rightarrow> json list \<Rightarrow> exn + unit" where
  "preview_all k [] = Inr ()"
| "preview_all k (msg # msgs) =
     (case preview_entry k msg of Inl e \<Rightarrow> Inl e | Inr u \<Rightarrow> preview_all k msgs)"

definition log_history_preview :: "int \<Rightarrow> nat \<Rightarrow> json list \<Rightarrow> exn + unit" where
  "log_history_preview n k history_list = preview_all k (py_slice_from (- n) history_list)"

definition LLM_FALLBACK :: string where
  "LLM_FALLBACK = ''Ah, my brain's a bit fuzzy right now. Ask me later, 'kay?''"

definition LLM_CLIENT_ERROR :: string where
  "LLM_CLIENT_ERROR = ''Ah, my brain's not working (OpenRouter client error). Try later.''"

text \<open>
  \<open>chat_completion.choices[0].message.content\<close>: no choice raises \<open>IndexError\<close>, and a
  choice without text makes the next line (\<open>response_content[:100]\<close> in \<open>bot.py\<close>,
  \<open>len(response_content)\<close> in the webhook handler) raise \<open>TypeError\<close>.
\<close>

definition response_content_of :: "chat_completion \<Rightarrow> exn + string" where
  "response_content_of cc =
     (case choices cc of
        [] \<Rightarrow> Inl IndexError
      | c # cs \<Rightarrow> (case c of None \<Rightarrow> Inl TypeError | Some s \<Rightarrow> Inr s))"

definition get_llm_response_from_openrouter :: "env \<Rightarrow> json list \<Rightarrow> string io" where
  "get_llm_response_from_openrouter env history_list =
     (let model_name = ''mistralai/mistral-small-3.1-24b-instruct'' in
      bind_io (lift_io (log_history_preview 5 30 history_list))
        (\<lambda>u. catch_io
           (bind_io (call_io (CreateCompletion model_name history_list)
                       (create_completion env model_name history_list))
              (\<lambda>chat_completion.
                 bind_io (lift_io (response_content_of chat_completion))
                   (\<lambda>response_content. return_io (strip response_content))))
           (\<lambda>e. return_io LLM_FALLBACK)))"

definition get_llm_response_from_openrouter_webhook :: "env \<Rightarrow> json list \<Rightarrow> string io" where
  "get_llm_response_from_openrouter_webhook env history_list =
     (let model_name = ''meta-llama/llama-4-maverick'' in
      if \<not> openrouter_client_set env then return_io LLM_CLIENT_ERROR
      else
        bind_io (lift_io (log_history_preview 3 20 history_list))
          (\<lambda>u. catch_io
             (bind_io (call_io (CreateCompletion model_name history_list)
                         (create_completion env model_name history_list))
                (\<lambda>chat_completion.
                   bind_io (lift_io (response_content_of chat_completion))
                     (\<lambda>response_content. return_io (strip response_content))))
             (\<lambda>e. return_io LLM_FALLBACK)))"

section \<open>The turn orchestrator\<close>

text \<open>
  A Telegram update as the handlers read it. An update whose \<open>message\<close> is set is a
  message of a private chat or a group, for which Telegram always names a sender, so
  \<open>effective_user\<close> is present.
\<close>

record user =
  usr_id :: int
  usr_username :: "string option"

record tg_message =
  msg_text :: "string option"
  msg_chat_id :: int

record update =
  upd_message :: "tg_message option"
  upd_effective_user :: user

definition MAX_CONVERSATION_MESSAGES :: int where
  "MAX_CONVERSATION_MESSAGES = 20"

definition MAX_USER_MESSAGE_LENGTH :: int where
  "MAX_USER_MESSAGE_LENGTH = 2000"

definition REJECTION_NOTICE :: string where
  "REJECTION_NOTICE =
     ''Whoa there, Shakespeare! That's a bit long for me. Try keeping it under ''
     @ str_int MAX_USER_MESSAGE_LENGTH @ '' characters, 'kay?''"

definition REJECTION_NOTICE_webhook :: string where
  "REJECTION_NOTICE_webhook =
     ''Whoa there, Shakespeare! Keep it under '' @ str_int MAX_USER_MESSAGE_LENGTH
     @ '' chars, 'kay?''"

text \<open>The text of the placeholder reply of \<open>bot.py\<close>, without its closing pictograph.\<close>

definition THINKING_TEXT :: string where
  "THINKING_TEXT = ''Hmm, lemme think... ''"

definition SOMETHING_WENT_WRONG :: string where
  "SOMETHING_WENT_WRONG = ''Sorry, something went wrong while thinking...''"

definition SYSTEM_MESSAGE :: "env \<Rightarrow> json" where
  "SYSTEM_MESSAGE env = turn ''system'' (system_message_content env)"

definition SYSTEM_MESSAGE_webhook :: json where
  "SYSTEM_MESSAGE_webhook = turn ''system'' []"

subsection \<open>\<open>bot.py\<close>\<close>

definition llm_message_handler :: "env \<Rightarrow> update \<Rightarrow> unit io" where
  "llm_message_handler env update =
     (case upd_message update of
        None \<Rightarrow> return_io ()
      | Some msg \<Rightarrow>
        (case msg_text msg of
           None \<Rightarrow> return_io ()
         | Some user_message_content \<Rightarrow>
           if user_message_content = [] then return_io ()
           else
             let chat_id = msg_chat_id msg;
                 user = upd_effective_user update;
                 user_id = usr_id user;
                 username = usr_username user
             in
             if int (length user_message_content) > MAX_USER_MESSAGE_LENGTH
             then call_io (ReplyText REJECTION_NOTICE) (reply_text env REJECTION_NOTICE)
             else
               bind_io (get_chat_history_from_cosmos env chat_id)
                 (\<lambda>(retrieved_history, existing_doc_metadata).
                    let is_first_interaction_for_chat =
                          (\<not> truthy (JList retrieved_history)
                           \<and> \<not> truthy (JObj existing_doc_metadata));
                        current_turn_history =
                          (if is_first_interaction_for_chat then [SYSTEM_MESSAGE env]
                           else if \<not> truthy (JList retrieved_history)
                                   \<and> truthy (JObj existing_doc_metadata)
                           then [SYSTEM_MESSAGE env]
                           else retrieved_history);
                        current_turn_history =
                          current_turn_history @ [turn ''user'' user_message_content]
                    in
                    bind_io (lift_io (prepare_and_truncate_history_for_llm
                                        current_turn_history MAX_CONVERSATION_MESSAGES))
                      (\<lambda>history_for_llm.
                    bind_io (call_io (ReplyText THINKING_TEXT) (reply_text env THINKING_TEXT))
                      (\<lambda>thinking_message.
                    bind_io (get_llm_response_from_openrouter env history_for_llm)
                      (\<lambda>llm_reply_content.
                    let current_turn_history =
                          current_turn_history @ [turn ''assistant'' llm_reply_content]
                    in
                    bind_io (save_chat_history_to_cosmos env chat_id current_turn_history
                               user_id username is_first_interaction_for_chat
                               (if \<not> is_first_interaction_for_chat
                                then Some existing_doc_metadata else None))
                      (\<lambda>u. call_io (EditText llm_reply_content)
                              (edit_text env llm_reply_content))))))))"

subsection \<open>The webhook handler\<close>

text \<open>
  The signaler task and the completion task run concurrently; the handler awaits the
  completion only. The signaler catches its own exceptions and the handler catches the
  ones of stopping it, so its whole effect on the turn is the typing actions it sends.
  Where they fall among the other calls is up to the scheduler; the trace lists them
  before the completion call.
\<close>

definition llm_message_handler_webhook :: "env \<Rightarrow> update \<Rightarrow> unit io" where
  "llm_message_handler_webhook env update =
     (case upd_message update of
        None \<Rightarrow> return_io ()
      | Some msg \<Rightarrow>
        (case msg_text msg of
           None \<Rightarrow> return_io ()
         | Some user_message_content \<Rightarrow>
           if user_message_content = [] then return_io ()
           else
             let chat_id = msg_chat_id msg;
                 user = upd_effective_user update;
                 user_id = usr_id user;
                 username = usr_username user
             in
             bind_io
               (catch_io
                  (if context_bot_set env
                   then call_io (SendChatAction chat_id) (send_chat_action env chat_id)
                   else return_io ())
                  (\<lambda>e_initial_typing. return_io ()))
               (\<lambda>u.
             if int (length user_message_content) > MAX_USER_MESSAGE_LENGTH
             then call_io (ReplyText REJECTION_NOTICE_webhook)
                    (reply_text env REJECTION_NOTICE_webhook)
             else
               bind_io (get_chat_history_from_cosmos_webhook env chat_id)
                 (\<lambda>(retrieved_history, existing_doc_metadata).
                    let is_first_interaction_for_chat =
                          (\<not> truthy (JList retrieved_history)
                           \<and> \<not> truthy (JObj existing_doc_metadata));
                        current_turn_history =
                          (if is_first_interaction_for_chat then [SYSTEM_MESSAGE_webhook]
                           else if \<not> truthy (JList retrieved_history)
                                   \<and> truthy (JObj existing_doc_metadata)
                           then [SYSTEM_MESSAGE_webhook]
                           else retrieved_history);
                        current_turn_history =
                          current_turn_history @ [turn ''user'' user_message_content]
                    in
                    bind_io (lift_io (prepare_and_truncate_history_for_llm
                                        current_turn_history MAX_CONVERSATION_MESSAGES))
                      (\<lambda>history_for_llm.
                    bind_io
                      (catch_io
                         (bind_io
                            (replicate (typing_sends env) (SendChatAction chat_id), Inr ())
                            (\<lambda>typing_task.
                               get_llm_response_from_openrouter_webhook env history_for_llm))
                         (\<lambda>e_concurrent. return_io SOMETHING_WENT_WRONG))
                      (\<lambda>llm_reply_content.
                    let current_turn_history =
                          current_turn_history @ [turn ''assistant'' llm_reply_content]
                    in
                    bind_io (save_chat_history_to_cosmos_webhook env chat_id
                               current_turn_history user_id username
                               is_first_interaction_for_chat
                               (if \<not> is_first_interaction_for_chat
                                then Some existing_doc_metadata else None))
                      (\<lambda>u. call_io (ReplyText llm_reply_content)
                              (reply_text env llm_reply_content))))))))"

subsection \<open>The liveness signaler\<close>

text \<open>
  \<open>send_typing_periodically\<close> loops until its stop event is set. What it meets in one
  pass of the loop is given from outside: whether \<open>stop_event.is_set()\<close> holds at the loop
  test, what \<open>send_chat_action\<close> does, and whether
  \<open>asyncio.wait_for(stop_event.wait(), timeout=4.0)\<close> returns because the stop event is
  set before the four seconds are over (otherwise it raises \<open>asyncio.TimeoutError\<close>).
  The send and the wait are in one \<open>try\<close>: \<open>asyncio.TimeoutError\<close> is passed over and
  the loop goes on, every other exception ends the loop. The result is \<open>None\<close> when the
  loop is still running after the passes that are given.
\<close>

record tick =
  stop_at_test :: bool
  send_outcome :: "exn + unit"
  stop_in_wait :: bool

fun send_typing_periodically :: "bool \<Rightarrow> int \<Rightarrow> tick list \<Rightarrow> unit io option" where
  "send_typing_periodically bot_available chat_id [] = None"
| "send_typing_periodically bot_available chat_id (tk # rest) =
     (if stop_at_test tk then Some ([], Inr ())
      else if \<not> bot_available then Some ([], Inr ())
      else
        (case send_outcome tk of
           Inl e \<Rightarrow>
             if e = AsyncioTimeoutError
             then (case send_typing_periodically bot_available chat_id rest of
                     None \<Rightarrow> None
                   | Some (t, r) \<Rightarrow> Some (SendChatAction chat_id # t, r))
             else Some ([SendChatAction chat_id], Inr ())
         | Inr sent \<Rightarrow>
             if stop_in_wait tk then Some ([SendChatAction chat_id], Inr ())
             else (case send_typing_periodically bot_available chat_id rest of
                     None \<Rightarrow> None
                   | Some (t, r) \<Rightarrow> Some (SendChatAction chat_id # t, r))))"

section \<open>The webhook entry point\<close>

text \<open>
  The module globals that \<open>main\<close> reads and \<open>initialize_ptb_application\<close> writes, and
  the library calls of one request: building and initializing the PTB application,
  \<open>Update.de_json\<close> with the reads of the update for the log line, and
  \<open>process_update\<close>. \<open>get_json\<close> is \<open>None\<close> when \<open>req.get_json()\<close> raises
  \<open>ValueError\<close>. One request runs alone here, so taking the initialization lock
  changes nothing.
\<close>

datatype application = Application

datatype bot = Bot

record globals =
  critical_secrets_missing :: bool
  TELEGRAM_BOT_TOKEN :: "string option"
  ptb_application :: "application option"
  ptb_bot_instance :: "bot option"

record ptb =
  build_and_initialize :: "exn + unit"
  de_json :: "json \<Rightarrow> exn + update"
  process_update :: "update \<Rightarrow> exn + unit"

record http_request =
  get_json :: "json option"

record http_response =
  body :: string
  status_code :: int

definition initialize_ptb_application :: "ptb \<Rightarrow> globals \<Rightarrow> globals" where
  "initialize_ptb_application p g =
     (case TELEGRAM_BOT_TOKEN g of
        None \<Rightarrow> g
      | Some token \<Rightarrow>
          if token = [] then g
          else (case build_and_initialize p of
                  Inr temp_app \<Rightarrow>
                    g\<lparr>ptb_application := Some Application, ptb_bot_instance := Some Bot\<rparr>
                | Inl e_ptb_lazy_init \<Rightarrow>
                    g\<lparr>ptb_application := None, ptb_bot_instance := None\<rparr>))"

definition main :: "ptb \<Rightarrow> globals \<Rightarrow> http_request \<Rightarrow> globals \<times> http_response" where
  "main p g req =
     (if critical_secrets_missing g
      then (g, \<lparr>body = ''Error: Bot configuration error (secrets).'', status_code = 500\<rparr>)
      else
        let g' = (if ptb_application g = None then initialize_ptb_application p g else g) in
        if ptb_application g = None
           \<and> (ptb_application g' = None \<or> ptb_bot_instance g' = None)
        then (g', \<lparr>body = ''Error: Bot application failed to initialize (PTB).'',
                   status_code = 500\<rparr>)
        else
          (case get_json req of
             None \<Rightarrow> (g', \<lparr>body = ''Please pass valid JSON'', status_code = 400\<rparr>)
           | Some request_body \<Rightarrow>
               if ptb_bot_instance g' = None
               then (g', \<lparr>body = ''Error: Bot instance unavailable (internal error).'',
                          status_code = 500\<rparr>)
               else
                 (case de_json p request_body of
                    Inl e_process_update \<Rightarrow>
                      (g', \<lparr>body = ''Internal error processing update.'', status_code = 200\<rparr>)
                  | Inr update \<Rightarrow>
                      (case process_update p update of
                         Inl e_process_update \<Rightarrow>
                           (g', \<lparr>body = ''Internal error processing update.'',
                                 status_code = 200\<rparr>)
                       | Inr u \<Rightarrow>
                           (g', \<lparr>body = ''Update processed by function.'',
                                 status_code = 200\<rparr>)))))"

section \<open>Vocabulary of the claims\<close>

text \<open>The documents a trace writes to the store, in order.\<close>

definition written_documents :: "event list \<Rightarrow> dict list" where
  "written_documents t = concat (map (\<lambda>ev. case ev of UpsertItem b \<Rightarrow> [b] | _ \<Rightarrow> []) t)"

text \<open>A call of the history store.\<close>

fun is_store_event :: "event \<Rightarrow> bool" where
  "is_store_event (ReadItem i) = True"
| "is_store_event (UpsertItem b) = True"
| "is_store_event ev = False"

text \<open>The stored document has a \<open>history\<close> field and it is a list.\<close>

definition history_is_list :: "dict \<Rightarrow> bool" where
  "history_is_list doc =
     (case map_of doc ''history'' of Some (JList xs) \<Rightarrow> True | _ \<Rightarrow> False)"

text \<open>
  An environment for concrete runs: the chat has no document yet, every write to the store
  fails, the completion service answers, Telegram delivers.
\<close>

definition demo_env :: env where
  "demo_env = \<lparr>read_item = (\<lambda>i. Inl CosmosResourceNotFoundError),
               upsert_item = (\<lambda>b. Inl OtherException),
               create_completion = (\<lambda>m h. Inr (ChatCompletion [Some '' hi ''])),
               reply_text = (\<lambda>s. Inr ()),
               edit_text = (\<lambda>s. Inr ()),
               send_chat_action = (\<lambda>c. Inr ()),
               utcnow = ''2025-01-01T00:00:00+00:00'',
               async_container_client_set = True,
               openrouter_client_set = True,
               context_bot_set = True,
               typing_sends = 1,
               system_message_content = ''be brief''\<rparr>"

text \<open>A stored document whose \<open>history\<close> field is not a list.\<close>

definition stored_doc :: dict where
  "stored_doc = [(''id'', JStr ''42''), (''history'', JStr ''lost''),
                 (''creator_user_id'', JStr ''7'')]"

text \<open>A text message of user 7 (\<open>bob\<close>) in chat 42, and a text of a given length.\<close>

definition demo_msg :: "string \<Rightarrow> tg_message" where
  "demo_msg s = \<lparr>msg_text = Some s, msg_chat_id = 42\<rparr>"

definition demo_update :: "string \<Rightarrow> update" where
  "demo_update s = \<lparr>upd_message = Some (demo_msg s),
                    upd_effective_user = \<lparr>usr_id = 7, usr_username = Some ''bob''\<rparr>\<rparr>"

definition demo_text :: "nat \<Rightarrow> string" where
  "demo_text n = replicate n CHR ''a''"

text \<open>The same with the document \<open>stored_doc\<close> in the store and writes that succeed.\<close>

definition demo_env_stored :: env where
  "demo_env_stored = demo_env\<lparr>read_item := (\<lambda>i. Inr stored_doc), upsert_item := (\<lambda>b. Inr b)\<rparr>"

text \<open>
  A message that the log preview can read: a dictionary with a \<open>role\<close> key and a
  \<open>content\<close> key whose value is a string or a list.
\<close>

fun previewable :: "json \<Rightarrow> bool" where
  "previewable (JObj d) =
     (map_of d ''role'' \<noteq> None \<and>
      (case map_of d ''content'' of
         Some (JStr s) \<Rightarrow> True
       | Some (JList xs) \<Rightarrow> True
       | _ \<Rightarrow> False))"
| "previewable v = False"

text \<open>
  What the completion client answers for an outcome of the completion call: the fallback
  when the call raised, returned no choice or returned a choice without text, else the
  stripped text of the first choice.
\<close>

definition completion_text :: "exn + chat_completion \<Rightarrow> string" where
  "completion_text r =
     (case r of
        Inl e \<Rightarrow> LLM_FALLBACK
      | Inr cc \<Rightarrow>
          (case choices cc of
             [] \<Rightarrow> LLM_FALLBACK
           | None # cs \<Rightarrow> LLM_FALLBACK
           | Some s # cs \<Rightarrow> strip s))"

text \<open>
  The lazy initialization is attempted and fails: the application is not set yet, and the
  token is missing or building and initializing the application raises.
\<close>

definition lazy_init_fails :: "ptb \<Rightarrow> globals \<Rightarrow> bool" where
  "lazy_init_fails p g =
     (ptb_application g = None \<and>
      (TELEGRAM_BOT_TOKEN g = None \<or> TELEGRAM_BOT_TOKEN g = Some []
       \<or> isl (build_and_initialize p)))"

text \<open>The two PTB globals go together: where the application is set, so is its bot.\<close>

definition bot_with_application :: "globals \<Rightarrow> bool" where
  "bot_with_application g = (ptb_application g \<noteq> None \<longrightarrow> ptb_bot_instance g \<noteq> None)"

text \<open>
  The globals after the module has been loaded, from the four secrets as loaded and from
  whether building the OpenAI and Cosmos clients went through without an exception.
\<close>

definition missing :: "string option \<Rightarrow> bool" where
  "missing secret = (case secret of None \<Rightarrow> True | Some s \<Rightarrow> s = [])"

definition startup_globals ::
  "string option \<Rightarrow> string option \<Rightarrow> string option \<Rightarrow> string option \<Rightarrow> bool \<Rightarrow> globals" where
  "startup_globals token openrouter_key cosmos_uri cosmos_key clients_built =
     \<lparr>critical_secrets_missing =
        (missing token \<or> missing openrouter_key \<or> missing cosmos_uri \<or> missing cosmos_key
         \<or> \<not> clients_built),
      TELEGRAM_BOT_TOKEN = token, ptb_application = None, ptb_bot_instance = None\<rparr>"

definition demo_globals :: globals where
  "demo_globals = startup_globals (Some ''t'') (Some ''k'') (Some ''u'') (Some ''c'') True"

text \<open>A PTB library whose \<open>process_update\<close> raises.\<close>

definition demo_ptb :: ptb where
  "demo_ptb = \<lparr>build_and_initialize = Inr (),
               de_json = (\<lambda>j. Inr (demo_update ''hi'')),
               process_update = (\<lambda>u. Inl OtherException)\<rparr>"

text \<open>
  A stored document with an entry that is not a turn (it has no \<open>content\<close>), and the
  environment with that document in the store.
\<close>

definition foreign_doc :: dict where
  "foreign_doc = [(''id'', JStr ''42''),
                  (''history'', JList [turn ''system'' ''be brief'',
                                       JObj [(''role'', JStr ''user'')]])]"

definition demo_env_foreign :: env where
  "demo_env_foreign =
     demo_env\<lparr>read_item := (\<lambda>i. Inr foreign_doc), upsert_item := (\<lambda>b. Inr b)\<rparr>"

text \<open>
  Four passes of the signaler loop: a wait that runs out, a send that raises
  \<open>asyncio.TimeoutError\<close>, a wait that sees the stop event, and a pass that would find the
  stop event set at its test.
\<close>

definition demo_ticks :: "tick list" where
  "demo_ticks =
     [\<lparr>stop_at_test = False, send_outcome = Inr (), stop_in_wait = False\<rparr>,
      \<lparr>stop_at_test = False, send_outcome = Inl AsyncioTimeoutError, stop_in_wait = False\<rparr>,
      \<lparr>stop_at_test = False, send_outcome = Inr (), stop_in_wait = True\<rparr>,
      \<lparr>stop_at_test = True, send_outcome = Inl OtherException, stop_in_wait = True\<rparr>]"

section \<open>Properties of the context window builder\<close>

lemma subscript_truthy: "subscript m k = Inr v \<Longrightarrow> truthy m"
  by (cases m) (auto split: option.splits)

lemma prepare_Cons:
  assumes "subscript first ''role'' = Inr role"
  shows "prepare_and_truncate_history_for_llm (first # rest) n =
           Inr (if role = JStr ''system'' then first # keep_last n rest
                else keep_last n (first # rest))"
  using assms subscript_truthy[OF assms] by (simp add: keep_last_def Let_def)

lemma keep_last_pos: "1 \<le> n \<Longrightarrow> keep_last n xs = drop (length xs - nat n) xs"
  by (auto simp: keep_last_def py_slice_from_def nat_diff_distrib' nat_add_distrib)

lemma keep_last_zero: "keep_last 0 xs = xs"
  by (simp add: keep_last_def py_slice_from_def)

lemma length_keep_last: "1 \<le> n \<Longrightarrow> int (length (keep_last n xs)) \<le> n"
  by (auto simp: keep_last_pos)

lemma keep_last_idem: "0 \<le> n \<Longrightarrow> keep_last n (keep_last n xs) = keep_last n xs"
  by (cases "n = 0") (auto simp: keep_last_zero keep_last_pos)

lemma list_ex_drop: "\<not> list_ex P xs \<Longrightarrow> \<not> list_ex P (drop k xs)"
  by (auto simp: list_ex_iff dest: in_set_dropD)

lemma filter_none: "\<not> list_ex P xs \<Longrightarrow> filter P xs = []"
  by (auto simp: list_ex_iff filter_empty_conv)

text \<open>
  Claim C1, as the code has it. An empty history gives an empty window, for every bound.
  For a bound \<open>n \<ge> 1\<close> and a history whose first entry is a dictionary with a
  \<open>role\<close> key, the builder returns a window of at most \<open>n + 1\<close> entries. If the first
  entry is a system turn, the window is that entry followed by the last \<open>n\<close> of the
  entries after it (all of them when there are at most \<open>n\<close>); it then holds exactly one
  system turn, at position 0, provided no later entry of the input is a system turn.
  If the first entry is not a system turn, the window is the last \<open>n\<close> entries of the
  input (all of them when there are at most \<open>n\<close>), and a window of an input without
  system turns has none.
\<close>

theorem prepare_window_bounded:
  "prepare_and_truncate_history_for_llm [] n = Inr [] \<and>
   (1 \<le> n \<and> has_role first \<longrightarrow>
     (\<exists>out. prepare_and_truncate_history_for_llm (first # rest) n = Inr out
        \<and> int (length out) \<le> n + 1
        \<and> (is_system first \<longrightarrow> out = first # drop (length rest - nat n) rest)
        \<and> (is_system first \<and> \<not> list_ex is_system rest \<longrightarrow>
              length (filter is_system out) = 1 \<and> out ! 0 = first)
        \<and> (\<not> is_system first \<longrightarrow>
              out = drop (length (first # rest) - nat n) (first # rest))
        \<and> (\<not> list_ex is_system (first # rest) \<longrightarrow> \<not> list_ex is_system out)))"
proof (intro conjI impI)
  show "prepare_and_truncate_history_for_llm [] n = Inr []" by simp
next
  assume a: "1 \<le> n \<and> has_role first"
  then obtain role where r: "subscript first ''role'' = Inr role"
    by (auto simp: has_role_def split: sum.splits)
  let ?out = "if role = JStr ''system'' then first # keep_last n rest
              else keep_last n (first # rest)"
  have sys: "is_system first \<longleftrightarrow> role = JStr ''system''"
    using r by (simp add: is_system_def)
  have p: "prepare_and_truncate_history_for_llm (first # rest) n = Inr ?out"
    by (rule prepare_Cons[OF r])
  have len: "int (length ?out) \<le> n + 1"
    using a length_keep_last[of n rest] length_keep_last[of n "first # rest"] by auto
  have k1: "keep_last n rest = drop (length rest - nat n) rest"
    and k2: "keep_last n (first # rest) = drop (length (first # rest) - nat n) (first # rest)"
    using a by (simp_all add: keep_last_pos)
  have c1: "is_system first \<longrightarrow> ?out = first # drop (length rest - nat n) rest"
    using sys k1 by simp
  have c2: "is_system first \<and> \<not> list_ex is_system rest \<longrightarrow>
              length (filter is_system ?out) = 1 \<and> ?out ! 0 = first"
    using sys k1 by (auto simp: filter_none list_ex_drop)
  have c3: "\<not> is_system first \<longrightarrow>
              ?out = drop (length (first # rest) - nat n) (first # rest)"
    using sys k2 by simp
  have c4: "\<not> list_ex is_system (first # rest) \<longrightarrow> \<not> list_ex is_system ?out"
  proof
    assume n: "\<not> list_ex is_system (first # rest)"
    then have "\<not> is_system first" by simp
    then have "?out = drop (length (first # rest) - nat n) (first # rest)" using c3 by simp
    then show "\<not> list_ex is_system ?out" using list_ex_drop[OF n] by simp
  qed
  show "\<exists>out. prepare_and_truncate_history_for_llm (first # rest) n = Inr out
        \<and> int (length out) \<le> n + 1
        \<and> (is_system first \<longrightarrow> out = first # drop (length rest - nat n) rest)
        \<and> (is_system first \<and> \<not> list_ex is_system rest \<longrightarrow>
              length (filter is_system out) = 1 \<and> out ! 0 = first)
        \<and> (\<not> is_system first \<longrightarrow>
              out = drop (length (first # rest) - nat n) (first # rest))
        \<and> (\<not> list_ex is_system (first # rest) \<longrightarrow> \<not> list_ex is_system out)"
    using p len c1 c2 c3 c4 by blast
qed

text \<open>A system turn and three conversation turns, bound 2: the oldest turn is dropped.\<close>

theorem prepare_window_bounded_witness:
  "(1::int) \<le> 2 \<and> has_role (turn ''system'' ''s'') \<and>
   prepare_and_truncate_history_for_llm
     [turn ''system'' ''s'', turn ''user'' ''a'', turn ''assistant'' ''b'',
      turn ''user'' ''c''] 2
   = Inr [turn ''system'' ''s'', turn ''assistant'' ''b'', turn ''user'' ''c'']"
  using prepare_window_bounded [of 2 "turn ''system'' ''s''"
      "[turn ''user'' ''a'', turn ''assistant'' ''b'', turn ''user'' ''c'']"]
  by (simp add: has_role_def is_system_def turn_def)

text \<open>
  Where claim C1 fails as stated. With bound 0 the slice \<open>[-0:]\<close> is the whole list, so
  two conversation turns give a window of two, more than \<open>0 + 1\<close>. A system turn after
  a leading system turn stays in the window, which then has two. A system turn after a
  leading user turn stays as well. A first entry without a \<open>role\<close> key raises
  \<open>KeyError\<close>, so no window is returned.
\<close>

theorem prepare_window_counterexample:
  "prepare_and_truncate_history_for_llm [turn ''user'' ''a'', turn ''user'' ''b''] 0
     = Inr [turn ''user'' ''a'', turn ''user'' ''b'']
   \<and> prepare_and_truncate_history_for_llm
        [turn ''system'' ''s'', turn ''system'' ''t''] 20
     = Inr [turn ''system'' ''s'', turn ''system'' ''t'']
   \<and> prepare_and_truncate_history_for_llm
        [turn ''user'' ''a'', turn ''system'' ''s''] 20
     = Inr [turn ''user'' ''a'', turn ''system'' ''s'']
   \<and> prepare_and_truncate_history_for_llm [JObj [(''content'', JStr ''a'')]] 20
     = Inl (KeyError ''role'')"
  by (simp add: turn_def py_slice_from_def)

text \<open>
  Claim C8. The context window builder is idempotent: for every history whose entries are
  turns (dictionaries with a \<open>role\<close> key) and every bound \<open>n \<ge> 0\<close>, the builder returns
  a window, and applied to that window with the same bound it returns it unchanged.
\<close>

theorem prepare_idempotent:
  assumes "0 \<le> n" and "list_all has_role h"
  shows "\<exists>out. prepare_and_truncate_history_for_llm h n = Inr out
           \<and> prepare_and_truncate_history_for_llm out n = Inr out"
proof (cases h)
  case Nil
  then show ?thesis by simp
next
  case (Cons first rest)
  then obtain role where r: "subscript first ''role'' = Inr role"
    using assms(2) by (auto simp: has_role_def split: sum.splits)
  show ?thesis
  proof (cases "role = JStr ''system''")
    case True
    then have p: "prepare_and_truncate_history_for_llm h n = Inr (first # keep_last n rest)"
      using prepare_Cons[OF r] Cons by simp
    have "prepare_and_truncate_history_for_llm (first # keep_last n rest) n
            = Inr (first # keep_last n rest)"
      using prepare_Cons[OF r, of "keep_last n rest" n] True keep_last_idem[OF assms(1)] by simp
    with p show ?thesis by simp
  next
    case False
    then have p: "prepare_and_truncate_history_for_llm h n = Inr (keep_last n h)"
      using prepare_Cons[OF r] Cons by simp
    have "prepare_and_truncate_history_for_llm (keep_last n h) n = Inr (keep_last n h)"
    proof (cases "keep_last n h")
      case Nil
      then show ?thesis by simp
    next
      case (Cons m ms)
      have "set (keep_last n h) \<subseteq> set h"
        by (auto simp: keep_last_def py_slice_from_def dest: in_set_dropD)
      then have "has_role m" using assms(2) Cons by (auto simp: list_all_iff)
      then obtain role' where r': "subscript m ''role'' = Inr role'"
        by (auto simp: has_role_def split: sum.splits)
      have i: "keep_last n (m # ms) = m # ms"
        using keep_last_idem[OF assms(1), of h] Cons by simp
      have j: "keep_last n ms = ms"
      proof (cases "n = 0")
        case True
        then show ?thesis by (simp add: keep_last_zero)
      next
        case False
        then have "1 \<le> n" using assms(1) by simp
        then have "int (length (m # ms)) \<le> n"
          using length_keep_last[of n h] Cons by simp
        then show ?thesis by (simp add: keep_last_def)
      qed
      show ?thesis using prepare_Cons[OF r', of ms n] i j Cons by simp
    qed
    with p show ?thesis by simp
  qed
qed

text \<open>
  A window that starts with a system turn which was not the first entry of the input:
  the second application detaches it and puts it back.
\<close>

theorem prepare_idempotent_witness:
  "(0::int) \<le> 1 \<and> list_all has_role [turn ''user'' ''a'', turn ''system'' ''s'']
   \<and> prepare_and_truncate_history_for_llm [turn ''user'' ''a'', turn ''system'' ''s''] 1
       = Inr [turn ''system'' ''s'']
   \<and> prepare_and_truncate_history_for_llm [turn ''system'' ''s''] 1
       = Inr [turn ''system'' ''s'']"
  using prepare_idempotent [of 1 "[turn ''user'' ''a'', turn ''system'' ''s'']"]
  by (simp add: has_role_def turn_def py_slice_from_def)

section \<open>The effect of the store adapter and of the handlers\<close>

lemmas io_defs = return_io_def lift_io_def call_io_def bind_io_def catch_io_def

lemma map_of_dict_set: "map_of (dict_set k v d) k' = (if k' = k then Some v else map_of d k')"
  by (induction d) auto

lemma get_chat_history_result:
  "get_chat_history_from_cosmos env c =
     ([ReadItem (str_int c)],
      Inr (case read_item env (str_int c) of
             Inl e \<Rightarrow> ([], [])
           | Inr doc \<Rightarrow> (case dict_get doc ''history'' (JList []) of JList xs \<Rightarrow> xs | _ \<Rightarrow> [],
                          filter (\<lambda>(k, v). k \<noteq> ''history'') doc)))"
  by (cases "read_item env (str_int c)")
     (auto simp: get_chat_history_from_cosmos_def io_defs Let_def split: exn.splits)

lemma get_chat_history_webhook_result:
  "get_chat_history_from_cosmos_webhook env c =
     (if async_container_client_set env then [ReadItem (str_int c)] else [],
      Inr (if \<not> async_container_client_set env then ([], [])
           else case read_item env (str_int c) of
             Inl e \<Rightarrow> ([], [])
           | Inr doc \<Rightarrow> (case dict_get doc ''history'' (JList []) of JList xs \<Rightarrow> xs | _ \<Rightarrow> [],
                          filter (\<lambda>(k, v). k \<noteq> ''history'') doc)))"
  by (cases "read_item env (str_int c)")
     (auto simp: get_chat_history_from_cosmos_webhook_def io_defs Let_def split: exn.splits)

lemma save_result:
  "\<exists>b. save_chat_history_to_cosmos env c h u n f m = ([UpsertItem b], Inr ())"
  unfolding save_chat_history_to_cosmos_def Let_def io_defs
  by (simp split: sum.splits)

lemma save_webhook_result:
  "\<exists>t. save_chat_history_to_cosmos_webhook env c h u n f m = (t, Inr ())
       \<and> ((\<not> async_container_client_set env \<and> t = []) \<or> (async_container_client_set env \<and> (\<exists>b. t = [UpsertItem b])))"
  unfolding save_chat_history_to_cosmos_webhook_def Let_def io_defs
  by (simp split: sum.splits)


lemma fst_save: "fst (save_chat_history_to_cosmos env c h u n f m) = t \<Longrightarrow>
   save_chat_history_to_cosmos env c h u n f m = (t, Inr ())"
  using save_result[of env c h u n f m] by auto

lemma fst_save_webhook: "fst (save_chat_history_to_cosmos_webhook env c h u n f m) = t \<Longrightarrow>
   save_chat_history_to_cosmos_webhook env c h u n f m = (t, Inr ())"
  using save_webhook_result[of env c h u n f m] by auto

lemma llm_message_handler_rejects:
  assumes "upd_message update = Some msg" and "msg_text msg = Some text"
    and "int (length text) > MAX_USER_MESSAGE_LENGTH"
  shows "llm_message_handler env update =
           ([ReplyText REJECTION_NOTICE], reply_text env REJECTION_NOTICE)"
proof -
  have "text \<noteq> []" using assms(3) by (auto simp: MAX_USER_MESSAGE_LENGTH_def)
  then show ?thesis using assms
    by (simp add: llm_message_handler_def Let_def call_io_def)
qed

lemma bind_io_Inr: "bind_io (t, Inr a) f = (case f a of (t', r) \<Rightarrow> (t @ t', r))"
  by (simp add: bind_io_def)

lemma turn_tail:
  "bind_io (lift_io (prepare_and_truncate_history_for_llm cur MAX_CONVERSATION_MESSAGES))
      (\<lambda>history_for_llm.
    bind_io (call_io (ReplyText THINKING_TEXT) (reply_text env THINKING_TEXT))
      (\<lambda>thinking_message.
    bind_io (get_llm_response_from_openrouter env history_for_llm)
      (\<lambda>llm_reply_content.
    bind_io (save_chat_history_to_cosmos env cid (cur @ [turn ''assistant'' llm_reply_content])
               uid un first mdarg)
      (\<lambda>u. call_io (EditText llm_reply_content) (edit_text env llm_reply_content)))))
   = (case prepare_and_truncate_history_for_llm cur MAX_CONVERSATION_MESSAGES of
           Inl e \<Rightarrow> ([], Inl e)
         | Inr w \<Rightarrow>
            (case reply_text env THINKING_TEXT of
               Inl e \<Rightarrow> ([ReplyText THINKING_TEXT], Inl e)
             | Inr u \<Rightarrow>
                (case get_llm_response_from_openrouter env w of
                   (tr, Inl e) \<Rightarrow> (ReplyText THINKING_TEXT # tr, Inl e)
                 | (tr, Inr reply) \<Rightarrow>
                     (ReplyText THINKING_TEXT # tr
                      @ fst (save_chat_history_to_cosmos env cid
                               (cur @ [turn ''assistant'' reply]) uid un first mdarg)
                      @ [EditText reply],
                      edit_text env reply))))"
proof (cases "prepare_and_truncate_history_for_llm cur MAX_CONVERSATION_MESSAGES")
  case (Inl e)
  then show ?thesis by (simp add: bind_io_def lift_io_def)
next
  case w: (Inr w)
  show ?thesis
  proof (cases "reply_text env THINKING_TEXT")
    case (Inl e)
    then show ?thesis using w by (simp add: bind_io_def lift_io_def call_io_def)
  next
    case r: (Inr x)
    obtain tr res where l: "get_llm_response_from_openrouter env w = (tr, res)"
      by (cases "get_llm_response_from_openrouter env w")
    show ?thesis
    proof (cases res)
      case (Inl e)
      then show ?thesis using w r l by (simp add: bind_io_def lift_io_def call_io_def)
    next
      case (Inr reply)
      obtain b where s: "save_chat_history_to_cosmos env cid
                           (cur @ [turn ''assistant'' reply]) uid un first mdarg
                         = ([UpsertItem b], Inr ())"
        using save_result by blast
      show ?thesis using Inr w r l s by (simp add: bind_io_def lift_io_def call_io_def)
    qed
  qed
qed

lemma llm_message_handler_unfold:
  assumes m: "upd_message update = Some msg" and t: "msg_text msg = Some text"
    and ne: "text \<noteq> []" and le: "int (length text) \<le> MAX_USER_MESSAGE_LENGTH"
    and ld: "snd (get_chat_history_from_cosmos env (msg_chat_id msg)) = Inr (h, md)"
    and fi: "first = (h = [] \<and> md = [])"
    and cu: "cur = (if first \<or> (h = [] \<and> md \<noteq> []) then [SYSTEM_MESSAGE env] else h)
                   @ [turn ''user'' text]"
  shows "llm_message_handler env update =
    bind_io ([ReadItem (str_int (msg_chat_id msg))], Inr ())
     (\<lambda>u. bind_io (lift_io (prepare_and_truncate_history_for_llm cur MAX_CONVERSATION_MESSAGES))
      (\<lambda>history_for_llm.
    bind_io (call_io (ReplyText THINKING_TEXT) (reply_text env THINKING_TEXT))
      (\<lambda>thinking_message.
    bind_io (get_llm_response_from_openrouter env history_for_llm)
      (\<lambda>llm_reply_content.
    bind_io (save_chat_history_to_cosmos env (msg_chat_id msg)
               (cur @ [turn ''assistant'' llm_reply_content])
               (usr_id (upd_effective_user update)) (usr_username (upd_effective_user update))
               first (if \<not> first then Some md else None))
      (\<lambda>u. call_io (EditText llm_reply_content) (edit_text env llm_reply_content))))))"
proof -
  have g: "get_chat_history_from_cosmos env (msg_chat_id msg)
             = ([ReadItem (str_int (msg_chat_id msg))], Inr (h, md))"
    using ld get_chat_history_result[of env "msg_chat_id msg"] by simp
  have nle: "(MAX_USER_MESSAGE_LENGTH < int (length text)) = False" using le by simp
  have ne': "(text = []) = False" using ne by simp
  have f: "(\<not> truthy (JList h) \<and> \<not> truthy (JObj md)) = first"
    using fi by simp
  have c: "(if first then [SYSTEM_MESSAGE env]
            else if \<not> truthy (JList h) \<and> truthy (JObj md) then [SYSTEM_MESSAGE env] else h)
           @ [turn ''user'' text] = cur"
    using cu by simp
  show ?thesis
    by (simp only: llm_message_handler_def Let_def m t option.case ne' nle if_False g
        bind_io_Inr prod.case f c)
qed

lemma llm_message_handler_accepts:
  assumes m: "upd_message update = Some msg" and t: "msg_text msg = Some text"
    and ne: "text \<noteq> []" and le: "int (length text) \<le> MAX_USER_MESSAGE_LENGTH"
    and ld: "snd (get_chat_history_from_cosmos env (msg_chat_id msg)) = Inr (h, md)"
    and fi: "first = (h = [] \<and> md = [])"
    and cu: "cur = (if first \<or> (h = [] \<and> md \<noteq> []) then [SYSTEM_MESSAGE env] else h)
                   @ [turn ''user'' text]"
  shows "llm_message_handler env update =
     (case prepare_and_truncate_history_for_llm cur MAX_CONVERSATION_MESSAGES of
           Inl e \<Rightarrow> ([ReadItem (str_int (msg_chat_id msg))], Inl e)
         | Inr w \<Rightarrow>
            (case reply_text env THINKING_TEXT of
               Inl e \<Rightarrow> ([ReadItem (str_int (msg_chat_id msg)), ReplyText THINKING_TEXT], Inl e)
             | Inr u \<Rightarrow>
                (case get_llm_response_from_openrouter env w of
                   (tr, Inl e) \<Rightarrow>
                     ([ReadItem (str_int (msg_chat_id msg)), ReplyText THINKING_TEXT] @ tr, Inl e)
                 | (tr, Inr reply) \<Rightarrow>
                     ([ReadItem (str_int (msg_chat_id msg)), ReplyText THINKING_TEXT] @ tr
                      @ fst (save_chat_history_to_cosmos env (msg_chat_id msg)
                               (cur @ [turn ''assistant'' reply])
                               (usr_id (upd_effective_user update))
                               (usr_username (upd_effective_user update))
                               first (if \<not> first then Some md else None))
                      @ [EditText reply],
                      edit_text env reply))))"
  unfolding llm_message_handler_unfold[OF assms] turn_tail bind_io_Inr
  by (simp split: sum.splits prod.splits)

lemma initial_typing:
  "catch_io (if context_bot_set env
             then call_io (SendChatAction c) (send_chat_action env c) else return_io ())
            (\<lambda>e. return_io ())
   = (if context_bot_set env then [SendChatAction c] else [], Inr ())"
  by (cases "send_chat_action env c") (simp_all add: io_defs)

lemma llm_message_handler_webhook_rejects:
  assumes "upd_message update = Some msg" and "msg_text msg = Some text"
    and "int (length text) > MAX_USER_MESSAGE_LENGTH"
  shows "llm_message_handler_webhook env update =
           ((if context_bot_set env then [SendChatAction (msg_chat_id msg)] else [])
            @ [ReplyText REJECTION_NOTICE_webhook],
            reply_text env REJECTION_NOTICE_webhook)"
proof -
  have "text \<noteq> []" using assms(3) by (auto simp: MAX_USER_MESSAGE_LENGTH_def)
  then show ?thesis using assms
    by (simp add: llm_message_handler_webhook_def Let_def initial_typing bind_io_Inr call_io_def)
qed

lemma turn_tail_webhook:
  "bind_io (lift_io (prepare_and_truncate_history_for_llm cur MAX_CONVERSATION_MESSAGES))
      (\<lambda>history_for_llm.
    bind_io (catch_io
               (bind_io (replicate k ev, Inr ())
                  (\<lambda>typing_task. get_llm_response_from_openrouter_webhook env history_for_llm))
               (\<lambda>e_concurrent. return_io SOMETHING_WENT_WRONG))
      (\<lambda>llm_reply_content.
    bind_io (save_chat_history_to_cosmos_webhook env cid
               (cur @ [turn ''assistant'' llm_reply_content]) uid un first mdarg)
      (\<lambda>u. call_io (ReplyText llm_reply_content) (reply_text env llm_reply_content))))
   = (case prepare_and_truncate_history_for_llm cur MAX_CONVERSATION_MESSAGES of
           Inl e \<Rightarrow> ([], Inl e)
         | Inr w \<Rightarrow>
            (case get_llm_response_from_openrouter_webhook env w of
               (tr, res) \<Rightarrow>
                 (let reply = (case res of Inl e \<Rightarrow> SOMETHING_WENT_WRONG | Inr r \<Rightarrow> r)
                  in (replicate k ev @ tr
                      @ fst (save_chat_history_to_cosmos_webhook env cid
                               (cur @ [turn ''assistant'' reply]) uid un first mdarg)
                      @ [ReplyText reply],
                      reply_text env reply))))"
proof (cases "prepare_and_truncate_history_for_llm cur MAX_CONVERSATION_MESSAGES")
  case (Inl e)
  then show ?thesis by (simp add: bind_io_def lift_io_def)
next
  case w: (Inr w)
  obtain tr res where l: "get_llm_response_from_openrouter_webhook env w = (tr, res)"
    by (cases "get_llm_response_from_openrouter_webhook env w")
  define reply where "reply = (case res of Inl e \<Rightarrow> SOMETHING_WENT_WRONG | Inr r \<Rightarrow> r)"
  obtain ts where s: "save_chat_history_to_cosmos_webhook env cid
                        (cur @ [turn ''assistant'' reply]) uid un first mdarg = (ts, Inr ())"
    using save_webhook_result by blast
  have c: "catch_io (bind_io (replicate k ev, Inr ())
                  (\<lambda>typing_task. get_llm_response_from_openrouter_webhook env w))
               (\<lambda>e_concurrent. return_io SOMETHING_WENT_WRONG)
           = (replicate k ev @ tr, Inr reply)"
    using l by (cases res) (simp_all add: io_defs reply_def)
  show ?thesis using w l s c
    by (simp add: bind_io_def lift_io_def call_io_def Let_def reply_def[symmetric])
qed

lemma llm_message_handler_webhook_unfold:
  assumes m: "upd_message update = Some msg" and t: "msg_text msg = Some text"
    and ne: "text \<noteq> []" and le: "int (length text) \<le> MAX_USER_MESSAGE_LENGTH"
    and ld: "snd (get_chat_history_from_cosmos_webhook env (msg_chat_id msg)) = Inr (h, md)"
    and fi: "first = (h = [] \<and> md = [])"
    and cu: "cur = (if first \<or> (h = [] \<and> md \<noteq> []) then [SYSTEM_MESSAGE_webhook] else h)
                   @ [turn ''user'' text]"
  shows "llm_message_handler_webhook env update =
    bind_io ((if context_bot_set env then [SendChatAction (msg_chat_id msg)] else [])
             @ (if async_container_client_set env then [ReadItem (str_int (msg_chat_id msg))]
                else []), Inr ())
     (\<lambda>u. bind_io (lift_io (prepare_and_truncate_history_for_llm cur MAX_CONVERSATION_MESSAGES))
      (\<lambda>history_for_llm.
    bind_io (catch_io
               (bind_io (replicate (typing_sends env) (SendChatAction (msg_chat_id msg)), Inr ())
                  (\<lambda>typing_task. get_llm_response_from_openrouter_webhook env history_for_llm))
               (\<lambda>e_concurrent. return_io SOMETHING_WENT_WRONG))
      (\<lambda>llm_reply_content.
    bind_io (save_chat_history_to_cosmos_webhook env (msg_chat_id msg)
               (cur @ [turn ''assistant'' llm_reply_content])
               (usr_id (upd_effective_user update)) (usr_username (upd_effective_user update))
               first (if \<not> first then Some md else None))
      (\<lambda>u. call_io (ReplyText llm_reply_content) (reply_text env llm_reply_content)))))"
proof -
  have g: "get_chat_history_from_cosmos_webhook env (msg_chat_id msg)
             = (if async_container_client_set env then [ReadItem (str_int (msg_chat_id msg))]
                else [], Inr (h, md))"
    using ld get_chat_history_webhook_result[of env "msg_chat_id msg"] by simp
  have nle: "(MAX_USER_MESSAGE_LENGTH < int (length text)) = False" using le by simp
  have ne': "(text = []) = False" using ne by simp
  have f: "(\<not> truthy (JList h) \<and> \<not> truthy (JObj md)) = first"
    using fi by simp
  have c: "(if first then [SYSTEM_MESSAGE_webhook]
            else if \<not> truthy (JList h) \<and> truthy (JObj md) then [SYSTEM_MESSAGE_webhook] else h)
           @ [turn ''user'' text] = cur"
    using cu by simp
  show ?thesis
    apply (simp only: llm_message_handler_webhook_def Let_def m t option.case ne' nle if_False g
        initial_typing bind_io_Inr prod.case f c)
    apply (simp only: prod.case append_assoc split: prod.splits)
    apply simp
    done
qed

lemma llm_message_handler_webhook_accepts:
  assumes m: "upd_message update = Some msg" and t: "msg_text msg = Some text"
    and ne: "text \<noteq> []" and le: "int (length text) \<le> MAX_USER_MESSAGE_LENGTH"
    and ld: "snd (get_chat_history_from_cosmos_webhook env (msg_chat_id msg)) = Inr (h, md)"
    and fi: "first = (h = [] \<and> md = [])"
    and cu: "cur = (if first \<or> (h = [] \<and> md \<noteq> []) then [SYSTEM_MESSAGE_webhook] else h)
                   @ [turn ''user'' text]"
    and pr: "pre = (if context_bot_set env then [SendChatAction (msg_chat_id msg)] else [])
                   @ (if async_container_client_set env
                      then [ReadItem (str_int (msg_chat_id msg))] else [])"
  shows "llm_message_handler_webhook env update =
     (case prepare_and_truncate_history_for_llm cur MAX_CONVERSATION_MESSAGES of
           Inl e \<Rightarrow> (pre, Inl e)
         | Inr w \<Rightarrow>
            (case get_llm_response_from_openrouter_webhook env w of
               (tr, res) \<Rightarrow>
                 (let reply = (case res of Inl e \<Rightarrow> SOMETHING_WENT_WRONG | Inr r \<Rightarrow> r)
                  in (pre @ replicate (typing_sends env) (SendChatAction (msg_chat_id msg)) @ tr
                      @ fst (save_chat_history_to_cosmos_webhook env (msg_chat_id msg)
                               (cur @ [turn ''assistant'' reply])
                               (usr_id (upd_effective_user update))
                               (usr_username (upd_effective_user update))
                               first (if \<not> first then Some md else None))
                      @ [ReplyText reply],
                      reply_text env reply))))"
  unfolding llm_message_handler_webhook_unfold[OF m t ne le ld fi cu] turn_tail_webhook
  by (simp add: bind_io_Inr pr Let_def split: sum.splits prod.splits)

section \<open>Claims about the store adapter\<close>

lemma str_int_42: "str_int 42 = ''42''"
  by (simp add: str_int_def digits.simps)

lemma str_int_7: "str_int 7 = ''7''"
  by (simp add: str_int_def digits.simps)

text \<open>
  Claim C10. When the read returns a document whose \<open>history\<close> field is missing or is
  not a list, both variants of \<open>get_chat_history_from_cosmos\<close> return the empty history
  together with all other fields of the document as metadata (the webhook variant when its
  container client is set; without a client it reads nothing). The returned history is a
  list by its type.
\<close>

theorem history_field_not_a_list:
  assumes "read_item env (str_int c) = Inr doc" and "\<not> history_is_list doc"
  shows "get_chat_history_from_cosmos env c =
           ([ReadItem (str_int c)], Inr ([], filter (\<lambda>(k, v). k \<noteq> ''history'') doc))
       \<and> (async_container_client_set env \<longrightarrow>
            get_chat_history_from_cosmos_webhook env c =
              ([ReadItem (str_int c)], Inr ([], filter (\<lambda>(k, v). k \<noteq> ''history'') doc)))"
proof -
  have "(case dict_get doc ''history'' (JList []) of JList xs \<Rightarrow> xs | _ \<Rightarrow> []) = []"
    using assms(2)
    by (auto simp: history_is_list_def dict_get_def split: option.splits json.splits)
  then show ?thesis
    using assms(1)
    by (simp add: get_chat_history_result get_chat_history_webhook_result)
qed

text \<open>The document \<open>stored_doc\<close>, whose \<open>history\<close> is a string.\<close>

theorem history_field_not_a_list_witness:
  "read_item (demo_env\<lparr>read_item := (\<lambda>i. Inr stored_doc)\<rparr>) (str_int 42) = Inr stored_doc
   \<and> \<not> history_is_list stored_doc
   \<and> async_container_client_set (demo_env\<lparr>read_item := (\<lambda>i. Inr stored_doc)\<rparr>)
   \<and> get_chat_history_from_cosmos (demo_env\<lparr>read_item := (\<lambda>i. Inr stored_doc)\<rparr>) 42 =
       ([ReadItem ''42''], Inr ([], [(''id'', JStr ''42''), (''creator_user_id'', JStr ''7'')]))
   \<and> get_chat_history_from_cosmos_webhook (demo_env\<lparr>read_item := (\<lambda>i. Inr stored_doc)\<rparr>) 42 =
       ([ReadItem ''42''], Inr ([], [(''id'', JStr ''42''), (''creator_user_id'', JStr ''7'')]))"
  using history_field_not_a_list
    [of "demo_env\<lparr>read_item := (\<lambda>i. Inr stored_doc)\<rparr>" 42 stored_doc]
  by (simp add: demo_env_def stored_doc_def history_is_list_def str_int_42)

text \<open>
  Claim C2 says that without creator fields in \<open>existing_metadata\<close> the current
  interactor becomes the creator. User 7 (\<open>bob\<close>) saves with
  \<open>is_initial_creation_or_reset = False\<close> and the metadata \<open>{'id': '42'}\<close>: the document
  that \<open>bot.py\<close> writes has no creator field at all, the one that the webhook handler
  writes names user 7 as the creator.
\<close>

theorem save_creator_fallback:
  "map (\<lambda>d. (map_of d ''creator_user_id'', map_of d ''creator_username''))
     (written_documents (fst (save_chat_history_to_cosmos
        (demo_env\<lparr>upsert_item := (\<lambda>b. Inr b)\<rparr>) 42 [] 7 (Some ''bob'') False
        (Some [(''id'', JStr ''42'')]))))
   = [(None, None)]
   \<and> map (\<lambda>d. (map_of d ''creator_user_id'', map_of d ''creator_username''))
     (written_documents (fst (save_chat_history_to_cosmos_webhook
        (demo_env\<lparr>upsert_item := (\<lambda>b. Inr b)\<rparr>) 42 [] 7 (Some ''bob'') False
        (Some [(''id'', JStr ''42'')]))))
   = [(Some (JStr ''7''), Some (JStr ''bob''))]"
  by (simp add: save_chat_history_to_cosmos_def save_chat_history_to_cosmos_webhook_def
      Let_def io_defs written_documents_def item_body_of_def dict_get_def demo_env_def
      str_int_42 str_int_7)

text \<open>
  The creator fields in general. The webhook variant does what claim C2 says; \<open>bot.py\<close>
  does so except for a non-empty \<open>existing_metadata\<close> without the field.
\<close>

lemma save_webhook_creator_fields:
  assumes "async_container_client_set env"
  shows "\<exists>b. save_chat_history_to_cosmos_webhook env c h u n f m = ([UpsertItem b], Inr ())
     \<and> map_of b ''creator_user_id'' =
         Some (if f then JStr (str_int u)
               else case m of None \<Rightarrow> JStr (str_int u)
                    | Some md \<Rightarrow> (case map_of md ''creator_user_id'' of
                                    None \<Rightarrow> JStr (str_int u) | Some v \<Rightarrow> v))
     \<and> map_of b ''creator_username'' =
         Some (if f then JStr (case n of None \<Rightarrow> ''N/A'' | Some x \<Rightarrow> if x \<noteq> [] then x else ''N/A'')
               else case m of None \<Rightarrow> JStr (case n of None \<Rightarrow> ''N/A'' | Some x \<Rightarrow> if x \<noteq> [] then x else ''N/A'')
                    | Some md \<Rightarrow> (case map_of md ''creator_username'' of
                                    None \<Rightarrow> JStr (case n of None \<Rightarrow> ''N/A'' | Some x \<Rightarrow> if x \<noteq> [] then x else ''N/A'') | Some v \<Rightarrow> v))"
  using assms unfolding save_chat_history_to_cosmos_webhook_def Let_def io_defs
  by (cases m) (auto simp: map_of_dict_set dict_get_def split: sum.splits option.splits)

lemma save_creator_fields:
  "\<exists>b. save_chat_history_to_cosmos env c h u n f m = ([UpsertItem b], Inr ())
     \<and> map_of b ''creator_user_id'' =
         (if f then Some (JStr (str_int u))
          else case m of None \<Rightarrow> Some (JStr (str_int u))
               | Some md \<Rightarrow> if md = [] then Some (JStr (str_int u))
                            else map_of md ''creator_user_id'')"
  unfolding save_chat_history_to_cosmos_def Let_def io_defs
  by (cases m) (auto simp: map_of_dict_set item_body_of_def split: sum.splits option.splits)

text \<open>
  Claim C7. \<open>get_chat_history_from_cosmos\<close> never raises, and when the read raises (no
  such item, or any other error) it returns the empty history and the empty metadata.
  \<open>save_chat_history_to_cosmos\<close> never raises: whatever the upsert does, the save makes
  that one call at most and returns \<open>None\<close>. So in a turn that gets as far as the save,
  the reply to the user is the last call of the handler, whether the write failed or not.
  All of it holds for \<open>bot.py\<close> and for the webhook handler.
\<close>

theorem store_failures_contained:
  "(\<exists>r. snd (get_chat_history_from_cosmos env c) = Inr r)
   \<and> (\<exists>r. snd (get_chat_history_from_cosmos_webhook env c) = Inr r)
   \<and> (read_item env (str_int c) = Inl e \<longrightarrow>
        snd (get_chat_history_from_cosmos env c) = Inr ([], [])
        \<and> snd (get_chat_history_from_cosmos_webhook env c) = Inr ([], []))
   \<and> (\<exists>b. save_chat_history_to_cosmos env c hist u n f m = ([UpsertItem b], Inr ()))
   \<and> (\<exists>t. save_chat_history_to_cosmos_webhook env c hist u n f m = (t, Inr ())
            \<and> (t = [] \<or> (\<exists>b. t = [UpsertItem b])))
   \<and> (upd_message update = Some msg \<and> msg_text msg = Some utext \<and> utext \<noteq> []
        \<and> int (length utext) \<le> MAX_USER_MESSAGE_LENGTH
        \<and> snd (get_chat_history_from_cosmos env (msg_chat_id msg)) = Inr (h, md)
        \<and> prepare_and_truncate_history_for_llm
             ((if h = [] then [SYSTEM_MESSAGE env] else h) @ [turn ''user'' utext])
             MAX_CONVERSATION_MESSAGES = Inr w
        \<and> reply_text env THINKING_TEXT = Inr ()
        \<and> get_llm_response_from_openrouter env w = (tr, Inr reply)
        \<longrightarrow> last (fst (llm_message_handler env update)) = EditText reply
            \<and> snd (llm_message_handler env update) = edit_text env reply)
   \<and> (upd_message update = Some msg \<and> msg_text msg = Some utext \<and> utext \<noteq> []
        \<and> int (length utext) \<le> MAX_USER_MESSAGE_LENGTH
        \<and> snd (get_chat_history_from_cosmos_webhook env (msg_chat_id msg)) = Inr (h', md')
        \<and> prepare_and_truncate_history_for_llm
             ((if h' = [] then [SYSTEM_MESSAGE_webhook] else h') @ [turn ''user'' utext])
             MAX_CONVERSATION_MESSAGES = Inr w'
        \<longrightarrow> (\<exists>reply'. last (fst (llm_message_handler_webhook env update)) = ReplyText reply'
               \<and> snd (llm_message_handler_webhook env update) = reply_text env reply'))"
proof (intro conjI impI)
  show "\<exists>r. snd (get_chat_history_from_cosmos env c) = Inr r"
    by (simp add: get_chat_history_result)
  show "\<exists>r. snd (get_chat_history_from_cosmos_webhook env c) = Inr r"
    by (simp add: get_chat_history_webhook_result)
  show "snd (get_chat_history_from_cosmos env c) = Inr ([], [])"
    if "read_item env (str_int c) = Inl e"
    using that by (simp add: get_chat_history_result)
  show "snd (get_chat_history_from_cosmos_webhook env c) = Inr ([], [])"
    if "read_item env (str_int c) = Inl e"
    using that by (simp add: get_chat_history_webhook_result)
  show "\<exists>b. save_chat_history_to_cosmos env c hist u n f m = ([UpsertItem b], Inr ())"
    by (rule save_result)
  show "\<exists>t. save_chat_history_to_cosmos_webhook env c hist u n f m = (t, Inr ())
            \<and> (t = [] \<or> (\<exists>b. t = [UpsertItem b]))"
    using save_webhook_result[of env c hist u n f m] by blast
next
  assume a: "upd_message update = Some msg \<and> msg_text msg = Some utext \<and> utext \<noteq> []
        \<and> int (length utext) \<le> MAX_USER_MESSAGE_LENGTH
        \<and> snd (get_chat_history_from_cosmos env (msg_chat_id msg)) = Inr (h, md)
        \<and> prepare_and_truncate_history_for_llm
             ((if h = [] then [SYSTEM_MESSAGE env] else h) @ [turn ''user'' utext])
             MAX_CONVERSATION_MESSAGES = Inr w
        \<and> reply_text env THINKING_TEXT = Inr ()
        \<and> get_llm_response_from_openrouter env w = (tr, Inr reply)"
  define first where "first = (h = [] \<and> md = [])"
  define cur where "cur = (if first \<or> (h = [] \<and> md \<noteq> []) then [SYSTEM_MESSAGE env] else h)
                   @ [turn ''user'' utext]"
  have c: "cur = (if h = [] then [SYSTEM_MESSAGE env] else h) @ [turn ''user'' utext]"
    by (auto simp: cur_def first_def)
  have "llm_message_handler env update =
          ([ReadItem (str_int (msg_chat_id msg)), ReplyText THINKING_TEXT] @ tr
                      @ fst (save_chat_history_to_cosmos env (msg_chat_id msg)
                               (cur @ [turn ''assistant'' reply])
                               (usr_id (upd_effective_user update))
                               (usr_username (upd_effective_user update))
                               first (if \<not> first then Some md else None))
                      @ [EditText reply],
                      edit_text env reply)"
    using llm_message_handler_accepts[of update msg utext env h md first cur] a c
    by (simp add: first_def cur_def)
  then show "last (fst (llm_message_handler env update)) = EditText reply"
    and "snd (llm_message_handler env update) = edit_text env reply"
    by simp_all
next
  assume a: "upd_message update = Some msg \<and> msg_text msg = Some utext \<and> utext \<noteq> []
        \<and> int (length utext) \<le> MAX_USER_MESSAGE_LENGTH
        \<and> snd (get_chat_history_from_cosmos_webhook env (msg_chat_id msg)) = Inr (h', md')
        \<and> prepare_and_truncate_history_for_llm
             ((if h' = [] then [SYSTEM_MESSAGE_webhook] else h') @ [turn ''user'' utext])
             MAX_CONVERSATION_MESSAGES = Inr w'"
  define first where "first = (h' = [] \<and> md' = [])"
  define cur where "cur = (if first \<or> (h' = [] \<and> md' \<noteq> []) then [SYSTEM_MESSAGE_webhook] else h')
                   @ [turn ''user'' utext]"
  define pre where "pre = (if context_bot_set env then [SendChatAction (msg_chat_id msg)] else [])
                   @ (if async_container_client_set env
                      then [ReadItem (str_int (msg_chat_id msg))] else [])"
  have c: "cur = (if h' = [] then [SYSTEM_MESSAGE_webhook] else h') @ [turn ''user'' utext]"
    by (auto simp: cur_def first_def)
  obtain tr' res where l: "get_llm_response_from_openrouter_webhook env w' = (tr', res)"
    by (cases "get_llm_response_from_openrouter_webhook env w'")
  define reply' where "reply' = (case res of Inl e \<Rightarrow> SOMETHING_WENT_WRONG | Inr r \<Rightarrow> r)"
  have "llm_message_handler_webhook env update =
          (pre @ replicate (typing_sends env) (SendChatAction (msg_chat_id msg)) @ tr'
                      @ fst (save_chat_history_to_cosmos_webhook env (msg_chat_id msg)
                               (cur @ [turn ''assistant'' reply'])
                               (usr_id (upd_effective_user update))
                               (usr_username (upd_effective_user update))
                               first (if \<not> first then Some md' else None))
                      @ [ReplyText reply'],
                      reply_text env reply')"
    using llm_message_handler_webhook_accepts[of update msg utext env h' md' first cur pre] a c l
    by (simp add: first_def cur_def pre_def reply'_def Let_def)
  then show "\<exists>reply'. last (fst (llm_message_handler_webhook env update)) = ReplyText reply'
               \<and> snd (llm_message_handler_webhook env update) = reply_text env reply'"
    by simp
qed

section \<open>Claims about the turn orchestrator\<close>

lemmas run_defs = llm_message_handler_def llm_message_handler_webhook_def
  get_chat_history_from_cosmos_def get_chat_history_from_cosmos_webhook_def
  save_chat_history_to_cosmos_def save_chat_history_to_cosmos_webhook_def
  get_llm_response_from_openrouter_def get_llm_response_from_openrouter_webhook_def
  log_history_preview_def preview_entry_def response_content_of_def
  py_slice_from_def turn_def SYSTEM_MESSAGE_def SYSTEM_MESSAGE_webhook_def
  MAX_CONVERSATION_MESSAGES_def MAX_USER_MESSAGE_LENGTH_def
  strip_def isspace_def item_body_of_def dict_get_def Let_def io_defs

text \<open>
  Claim C3. For a text message longer than \<open>MAX_USER_MESSAGE_LENGTH\<close> the handler sends
  the rejection notice and does nothing else (the webhook handler has sent its first typing
  action before): no call of the history store is made, and the handler returns what the
  reply call returns. A message of exactly \<open>MAX_USER_MESSAGE_LENGTH\<close> characters is a
  normal turn: the history is loaded, and when the window builder, the placeholder reply
  and the completion client return, the turn is saved and the reply is sent.
\<close>

theorem length_guard:
  assumes m: "upd_message update = Some msg" and t: "msg_text msg = Some utext"
  shows
   "(int (length utext) > MAX_USER_MESSAGE_LENGTH \<longrightarrow>
       llm_message_handler env update =
         ([ReplyText REJECTION_NOTICE], reply_text env REJECTION_NOTICE)
     \<and> llm_message_handler_webhook env update =
         ((if context_bot_set env then [SendChatAction (msg_chat_id msg)] else [])
          @ [ReplyText REJECTION_NOTICE_webhook], reply_text env REJECTION_NOTICE_webhook)
     \<and> \<not> list_ex is_store_event (fst (llm_message_handler env update))
     \<and> \<not> list_ex is_store_event (fst (llm_message_handler_webhook env update)))
    \<and> (int (length utext) = MAX_USER_MESSAGE_LENGTH
        \<and> snd (get_chat_history_from_cosmos env (msg_chat_id msg)) = Inr (h, md)
        \<and> prepare_and_truncate_history_for_llm
             ((if h = [] then [SYSTEM_MESSAGE env] else h) @ [turn ''user'' utext])
             MAX_CONVERSATION_MESSAGES = Inr w
        \<and> reply_text env THINKING_TEXT = Inr ()
        \<and> get_llm_response_from_openrouter env w = (tr, Inr reply)
        \<longrightarrow> llm_message_handler env update =
             ([ReadItem (str_int (msg_chat_id msg)), ReplyText THINKING_TEXT] @ tr
              @ fst (save_chat_history_to_cosmos env (msg_chat_id msg)
                       ((if h = [] then [SYSTEM_MESSAGE env] else h)
                        @ [turn ''user'' utext, turn ''assistant'' reply])
                       (usr_id (upd_effective_user update))
                       (usr_username (upd_effective_user update))
                       (h = [] \<and> md = [])
                       (if \<not> (h = [] \<and> md = []) then Some md else None))
              @ [EditText reply],
              edit_text env reply))
    \<and> (int (length utext) = MAX_USER_MESSAGE_LENGTH
        \<and> snd (get_chat_history_from_cosmos_webhook env (msg_chat_id msg)) = Inr (h', md')
        \<and> prepare_and_truncate_history_for_llm
             ((if h' = [] then [SYSTEM_MESSAGE_webhook] else h') @ [turn ''user'' utext])
             MAX_CONVERSATION_MESSAGES = Inr w'
        \<and> get_llm_response_from_openrouter_webhook env w' = (tr', Inr reply')
        \<longrightarrow> llm_message_handler_webhook env update =
             ((if context_bot_set env then [SendChatAction (msg_chat_id msg)] else [])
              @ (if async_container_client_set env
                 then [ReadItem (str_int (msg_chat_id msg))] else [])
              @ replicate (typing_sends env) (SendChatAction (msg_chat_id msg)) @ tr'
              @ fst (save_chat_history_to_cosmos_webhook env (msg_chat_id msg)
                       ((if h' = [] then [SYSTEM_MESSAGE_webhook] else h')
                        @ [turn ''user'' utext, turn ''assistant'' reply'])
                       (usr_id (upd_effective_user update))
                       (usr_username (upd_effective_user update))
                       (h' = [] \<and> md' = [])
                       (if \<not> (h' = [] \<and> md' = []) then Some md' else None))
              @ [ReplyText reply'],
              reply_text env reply'))"
proof (intro conjI impI)
  assume g: "int (length utext) > MAX_USER_MESSAGE_LENGTH"
  show r1: "llm_message_handler env update =
         ([ReplyText REJECTION_NOTICE], reply_text env REJECTION_NOTICE)"
    by (rule llm_message_handler_rejects[OF m t g])
  show r2: "llm_message_handler_webhook env update =
         ((if context_bot_set env then [SendChatAction (msg_chat_id msg)] else [])
          @ [ReplyText REJECTION_NOTICE_webhook], reply_text env REJECTION_NOTICE_webhook)"
    by (rule llm_message_handler_webhook_rejects[OF m t g])
  show "\<not> list_ex is_store_event (fst (llm_message_handler env update))"
    by (simp add: r1)
  show "\<not> list_ex is_store_event (fst (llm_message_handler_webhook env update))"
    by (simp add: r2)
next
  assume a: "int (length utext) = MAX_USER_MESSAGE_LENGTH
        \<and> snd (get_chat_history_from_cosmos env (msg_chat_id msg)) = Inr (h, md)
        \<and> prepare_and_truncate_history_for_llm
             ((if h = [] then [SYSTEM_MESSAGE env] else h) @ [turn ''user'' utext])
             MAX_CONVERSATION_MESSAGES = Inr w
        \<and> reply_text env THINKING_TEXT = Inr ()
        \<and> get_llm_response_from_openrouter env w = (tr, Inr reply)"
  then have ne: "utext \<noteq> []" and le: "int (length utext) \<le> MAX_USER_MESSAGE_LENGTH"
    by (auto simp: MAX_USER_MESSAGE_LENGTH_def)
  define first where "first = (h = [] \<and> md = [])"
  define cur where "cur = (if first \<or> (h = [] \<and> md \<noteq> []) then [SYSTEM_MESSAGE env] else h)
                   @ [turn ''user'' utext]"
  have c: "cur = (if h = [] then [SYSTEM_MESSAGE env] else h) @ [turn ''user'' utext]"
    by (auto simp: cur_def first_def)
  show "llm_message_handler env update =
             ([ReadItem (str_int (msg_chat_id msg)), ReplyText THINKING_TEXT] @ tr
              @ fst (save_chat_history_to_cosmos env (msg_chat_id msg)
                       ((if h = [] then [SYSTEM_MESSAGE env] else h)
                        @ [turn ''user'' utext, turn ''assistant'' reply])
                       (usr_id (upd_effective_user update))
                       (usr_username (upd_effective_user update))
                       (h = [] \<and> md = [])
                       (if \<not> (h = [] \<and> md = []) then Some md else None))
              @ [EditText reply],
              edit_text env reply)"
    using llm_message_handler_accepts[OF m t ne le _ first_def cur_def] a c
    by (simp add: first_def)
next
  assume a: "int (length utext) = MAX_USER_MESSAGE_LENGTH
        \<and> snd (get_chat_history_from_cosmos_webhook env (msg_chat_id msg)) = Inr (h', md')
        \<and> prepare_and_truncate_history_for_llm
             ((if h' = [] then [SYSTEM_MESSAGE_webhook] else h') @ [turn ''user'' utext])
             MAX_CONVERSATION_MESSAGES = Inr w'
        \<and> get_llm_response_from_openrouter_webhook env w' = (tr', Inr reply')"
  then have ne: "utext \<noteq> []" and le: "int (length utext) \<le> MAX_USER_MESSAGE_LENGTH"
    by (auto simp: MAX_USER_MESSAGE_LENGTH_def)
  define first where "first = (h' = [] \<and> md' = [])"
  define cur where "cur = (if first \<or> (h' = [] \<and> md' \<noteq> []) then [SYSTEM_MESSAGE_webhook] else h')
                   @ [turn ''user'' utext]"
  define pre where "pre = (if context_bot_set env then [SendChatAction (msg_chat_id msg)] else [])
                   @ (if async_container_client_set env
                      then [ReadItem (str_int (msg_chat_id msg))] else [])"
  have c: "cur = (if h' = [] then [SYSTEM_MESSAGE_webhook] else h') @ [turn ''user'' utext]"
    by (auto simp: cur_def first_def)
  show "llm_message_handler_webhook env update =
             ((if context_bot_set env then [SendChatAction (msg_chat_id msg)] else [])
              @ (if async_container_client_set env
                 then [ReadItem (str_int (msg_chat_id msg))] else [])
              @ replicate (typing_sends env) (SendChatAction (msg_chat_id msg)) @ tr'
              @ fst (save_chat_history_to_cosmos_webhook env (msg_chat_id msg)
                       ((if h' = [] then [SYSTEM_MESSAGE_webhook] else h')
                        @ [turn ''user'' utext, turn ''assistant'' reply'])
                       (usr_id (upd_effective_user update))
                       (usr_username (upd_effective_user update))
                       (h' = [] \<and> md' = [])
                       (if \<not> (h' = [] \<and> md' = []) then Some md' else None))
              @ [ReplyText reply'],
              reply_text env reply')"
    using llm_message_handler_webhook_accepts[OF m t ne le _ first_def cur_def pre_def] a c
    by (simp add: first_def pre_def)
qed

text \<open>A message of 2001 characters and one of 2000, in a chat without a document.\<close>

theorem length_guard_witness:
  "upd_message (demo_update (demo_text 2001)) = Some (demo_msg (demo_text 2001))
   \<and> msg_text (demo_msg (demo_text 2001)) = Some (demo_text 2001)
   \<and> int (length (demo_text 2001)) > MAX_USER_MESSAGE_LENGTH
   \<and> llm_message_handler demo_env (demo_update (demo_text 2001))
       = ([ReplyText REJECTION_NOTICE], Inr ())
   \<and> llm_message_handler_webhook demo_env (demo_update (demo_text 2001))
       = ([SendChatAction 42, ReplyText REJECTION_NOTICE_webhook], Inr ())
   \<and> upd_message (demo_update (demo_text 2000)) = Some (demo_msg (demo_text 2000))
   \<and> msg_text (demo_msg (demo_text 2000)) = Some (demo_text 2000)
   \<and> int (length (demo_text 2000)) = MAX_USER_MESSAGE_LENGTH
   \<and> snd (get_chat_history_from_cosmos demo_env 42) = Inr ([], [])
   \<and> prepare_and_truncate_history_for_llm
        [turn ''system'' ''be brief'', turn ''user'' (demo_text 2000)] MAX_CONVERSATION_MESSAGES
       = Inr [turn ''system'' ''be brief'', turn ''user'' (demo_text 2000)]
   \<and> reply_text demo_env THINKING_TEXT = Inr ()
   \<and> get_llm_response_from_openrouter demo_env
        [turn ''system'' ''be brief'', turn ''user'' (demo_text 2000)]
       = ([CreateCompletion ''mistralai/mistral-small-3.1-24b-instruct''
             [turn ''system'' ''be brief'', turn ''user'' (demo_text 2000)]], Inr ''hi'')
   \<and> map is_store_event (fst (llm_message_handler demo_env (demo_update (demo_text 2000))))
       = [True, False, False, True, False]
   \<and> snd (llm_message_handler demo_env (demo_update (demo_text 2000))) = Inr ()
   \<and> snd (get_chat_history_from_cosmos_webhook demo_env 42) = Inr ([], [])
   \<and> get_llm_response_from_openrouter_webhook demo_env
        [turn ''system'' [], turn ''user'' (demo_text 2000)]
       = ([CreateCompletion ''meta-llama/llama-4-maverick''
             [turn ''system'' [], turn ''user'' (demo_text 2000)]], Inr ''hi'')
   \<and> map is_store_event
         (fst (llm_message_handler_webhook demo_env (demo_update (demo_text 2000))))
       = [False, True, False, False, True, False]"
  using length_guard [where update = "demo_update (demo_text 2001)"
      and msg = "demo_msg (demo_text 2001)" and utext = "demo_text 2001" and env = demo_env]
    length_guard [where update = "demo_update (demo_text 2000)"
      and msg = "demo_msg (demo_text 2000)" and utext = "demo_text 2000" and env = demo_env
      and h = "[]" and md = "[]"
      and w = "[turn ''system'' ''be brief'', turn ''user'' (demo_text 2000)]"
      and tr = "[CreateCompletion ''mistralai/mistral-small-3.1-24b-instruct''
             [turn ''system'' ''be brief'', turn ''user'' (demo_text 2000)]]"
      and reply = "''hi''" and h' = "[]" and md' = "[]"
      and w' = "[turn ''system'' [], turn ''user'' (demo_text 2000)]"
      and tr' = "[CreateCompletion ''meta-llama/llama-4-maverick''
             [turn ''system'' [], turn ''user'' (demo_text 2000)]]"
      and reply' = "''hi''"]
  by (simp add: run_defs demo_env_def demo_update_def demo_msg_def demo_text_def
      str_int_42 str_int_7)

text \<open>
  A first message in a chat without a document, with a store whose every write fails: the
  save returns and the reply is sent.
\<close>

theorem store_failures_contained_witness:
  "read_item demo_env (str_int 42) = Inl CosmosResourceNotFoundError
   \<and> get_chat_history_from_cosmos demo_env 42 = ([ReadItem ''42''], Inr ([], []))
   \<and> get_chat_history_from_cosmos_webhook demo_env 42 = ([ReadItem ''42''], Inr ([], []))
   \<and> upsert_item demo_env (item_body_of ''42'' [] ''7'' ''bob'' (utcnow demo_env))
       = Inl OtherException
   \<and> save_chat_history_to_cosmos demo_env 42 [] 7 (Some ''bob'') False
        (Some [(''id'', JStr ''42'')])
       = ([UpsertItem (item_body_of ''42'' [] ''7'' ''bob'' (utcnow demo_env))], Inr ())
   \<and> snd (save_chat_history_to_cosmos_webhook demo_env 42 [] 7 (Some ''bob'') False
             (Some [(''id'', JStr ''42'')])) = Inr ()
   \<and> upd_message (demo_update ''hi'') = Some (demo_msg ''hi'')
   \<and> msg_text (demo_msg ''hi'') = Some ''hi'' \<and> ''hi'' \<noteq> []
   \<and> int (length ''hi'') \<le> MAX_USER_MESSAGE_LENGTH
   \<and> prepare_and_truncate_history_for_llm
        [turn ''system'' ''be brief'', turn ''user'' ''hi''] MAX_CONVERSATION_MESSAGES
       = Inr [turn ''system'' ''be brief'', turn ''user'' ''hi'']
   \<and> reply_text demo_env THINKING_TEXT = Inr ()
   \<and> get_llm_response_from_openrouter demo_env
        [turn ''system'' ''be brief'', turn ''user'' ''hi'']
       = ([CreateCompletion ''mistralai/mistral-small-3.1-24b-instruct''
             [turn ''system'' ''be brief'', turn ''user'' ''hi'']], Inr ''hi'')
   \<and> last (fst (llm_message_handler demo_env (demo_update ''hi''))) = EditText ''hi''
   \<and> snd (llm_message_handler demo_env (demo_update ''hi'')) = Inr ()
   \<and> prepare_and_truncate_history_for_llm
        [turn ''system'' [], turn ''user'' ''hi''] MAX_CONVERSATION_MESSAGES
       = Inr [turn ''system'' [], turn ''user'' ''hi'']
   \<and> last (fst (llm_message_handler_webhook demo_env (demo_update ''hi''))) = ReplyText ''hi''
   \<and> snd (llm_message_handler_webhook demo_env (demo_update ''hi'')) = Inr ()"
  using store_failures_contained [where env = demo_env and c = 42
      and e = CosmosResourceNotFoundError and hist = "[]" and u = 7 and n = "Some ''bob''"
      and f = False and m = "Some [(''id'', JStr ''42'')]"
      and update = "demo_update ''hi''" and msg = "demo_msg ''hi''" and utext = "''hi''"
      and h = "[]" and md = "[]"
      and w = "[turn ''system'' ''be brief'', turn ''user'' ''hi'']"
      and tr = "[CreateCompletion ''mistralai/mistral-small-3.1-24b-instruct''
             [turn ''system'' ''be brief'', turn ''user'' ''hi'']]"
      and reply = "''hi''" and h' = "[]" and md' = "[]"
      and w' = "[turn ''system'' [], turn ''user'' ''hi'']"]
  by (simp add: run_defs demo_env_def demo_update_def demo_msg_def str_int_42 str_int_7)

text \<open>
  Claim C4. In a turn that is not rejected, let \<open>h\<close> and \<open>md\<close> be the history and the
  metadata that the store adapter returned. The working history starts with a single fresh
  system turn exactly when \<open>h\<close> and \<open>md\<close> are both empty (the first interaction) or
  \<open>h\<close> is empty and \<open>md\<close> is not; otherwise it is \<open>h\<close>. When the window builder
  returns (in \<open>bot.py\<close> also the placeholder reply and the completion client), the
  handler calls the save with the working history extended by the user turn and the
  assistant turn, with \<open>is_initial_creation_or_reset\<close> true exactly when \<open>h\<close> and \<open>md\<close>
  are both empty, and with \<open>md\<close> as \<open>existing_metadata\<close> exactly when they are not.
\<close>

theorem first_interaction_and_save:
  assumes m: "upd_message update = Some msg" and t: "msg_text msg = Some utext"
    and ne: "utext \<noteq> []" and le: "int (length utext) \<le> MAX_USER_MESSAGE_LENGTH"
  shows
   "(snd (get_chat_history_from_cosmos env (msg_chat_id msg)) = Inr (h, md)
      \<and> prepare_and_truncate_history_for_llm
           ((if (h = [] \<and> md = []) \<or> (h = [] \<and> md \<noteq> []) then [SYSTEM_MESSAGE env] else h)
            @ [turn ''user'' utext])
           MAX_CONVERSATION_MESSAGES = Inr w
      \<and> reply_text env THINKING_TEXT = Inr ()
      \<and> get_llm_response_from_openrouter env w = (tr, Inr reply)
      \<longrightarrow> llm_message_handler env update =
           ([ReadItem (str_int (msg_chat_id msg)), ReplyText THINKING_TEXT] @ tr
            @ fst (save_chat_history_to_cosmos env (msg_chat_id msg)
                     ((if (h = [] \<and> md = []) \<or> (h = [] \<and> md \<noteq> [])
                       then [SYSTEM_MESSAGE env] else h)
                      @ [turn ''user'' utext, turn ''assistant'' reply])
                     (usr_id (upd_effective_user update))
                     (usr_username (upd_effective_user update))
                     (h = [] \<and> md = [])
                     (if \<not> (h = [] \<and> md = []) then Some md else None))
            @ [EditText reply],
            edit_text env reply))
    \<and> (snd (get_chat_history_from_cosmos_webhook env (msg_chat_id msg)) = Inr (h', md')
      \<and> prepare_and_truncate_history_for_llm
           ((if (h' = [] \<and> md' = []) \<or> (h' = [] \<and> md' \<noteq> [])
             then [SYSTEM_MESSAGE_webhook] else h')
            @ [turn ''user'' utext])
           MAX_CONVERSATION_MESSAGES = Inr w'
      \<and> get_llm_response_from_openrouter_webhook env w' = (tr', res')
      \<and> reply' = (case res' of Inl e \<Rightarrow> SOMETHING_WENT_WRONG | Inr r \<Rightarrow> r)
      \<longrightarrow> llm_message_handler_webhook env update =
           ((if context_bot_set env then [SendChatAction (msg_chat_id msg)] else [])
            @ (if async_container_client_set env
               then [ReadItem (str_int (msg_chat_id msg))] else [])
            @ replicate (typing_sends env) (SendChatAction (msg_chat_id msg)) @ tr'
            @ fst (save_chat_history_to_cosmos_webhook env (msg_chat_id msg)
                     ((if (h' = [] \<and> md' = []) \<or> (h' = [] \<and> md' \<noteq> [])
                       then [SYSTEM_MESSAGE_webhook] else h')
                      @ [turn ''user'' utext, turn ''assistant'' reply'])
                     (usr_id (upd_effective_user update))
                     (usr_username (upd_effective_user update))
                     (h' = [] \<and> md' = [])
                     (if \<not> (h' = [] \<and> md' = []) then Some md' else None))
            @ [ReplyText reply'],
            reply_text env reply'))"
proof (intro conjI impI)
  assume a: "snd (get_chat_history_from_cosmos env (msg_chat_id msg)) = Inr (h, md)
      \<and> prepare_and_truncate_history_for_llm
           ((if (h = [] \<and> md = []) \<or> (h = [] \<and> md \<noteq> []) then [SYSTEM_MESSAGE env] else h)
            @ [turn ''user'' utext])
           MAX_CONVERSATION_MESSAGES = Inr w
      \<and> reply_text env THINKING_TEXT = Inr ()
      \<and> get_llm_response_from_openrouter env w = (tr, Inr reply)"
  define first where "first = (h = [] \<and> md = [])"
  define cur where "cur = (if first \<or> (h = [] \<and> md \<noteq> []) then [SYSTEM_MESSAGE env] else h)
                   @ [turn ''user'' utext]"
  have p: "prepare_and_truncate_history_for_llm cur MAX_CONVERSATION_MESSAGES = Inr w"
    using a by (simp add: cur_def first_def)
  have "llm_message_handler env update =
           ([ReadItem (str_int (msg_chat_id msg)), ReplyText THINKING_TEXT] @ tr
            @ fst (save_chat_history_to_cosmos env (msg_chat_id msg)
                     (cur @ [turn ''assistant'' reply])
                     (usr_id (upd_effective_user update))
                     (usr_username (upd_effective_user update))
                     first (if \<not> first then Some md else None))
            @ [EditText reply],
            edit_text env reply)"
    using llm_message_handler_accepts[OF m t ne le _ first_def cur_def] a p
    by simp
  then show "llm_message_handler env update =
           ([ReadItem (str_int (msg_chat_id msg)), ReplyText THINKING_TEXT] @ tr
            @ fst (save_chat_history_to_cosmos env (msg_chat_id msg)
                     ((if (h = [] \<and> md = []) \<or> (h = [] \<and> md \<noteq> [])
                       then [SYSTEM_MESSAGE env] else h)
                      @ [turn ''user'' utext, turn ''assistant'' reply])
                     (usr_id (upd_effective_user update))
                     (usr_username (upd_effective_user update))
                     (h = [] \<and> md = [])
                     (if \<not> (h = [] \<and> md = []) then Some md else None))
            @ [EditText reply],
            edit_text env reply)"
    unfolding cur_def first_def by simp
next
  assume a: "snd (get_chat_history_from_cosmos_webhook env (msg_chat_id msg)) = Inr (h', md')
      \<and> prepare_and_truncate_history_for_llm
           ((if (h' = [] \<and> md' = []) \<or> (h' = [] \<and> md' \<noteq> [])
             then [SYSTEM_MESSAGE_webhook] else h')
            @ [turn ''user'' utext])
           MAX_CONVERSATION_MESSAGES = Inr w'
      \<and> get_llm_response_from_openrouter_webhook env w' = (tr', res')
      \<and> reply' = (case res' of Inl e \<Rightarrow> SOMETHING_WENT_WRONG | Inr r \<Rightarrow> r)"
  define first where "first = (h' = [] \<and> md' = [])"
  define cur where "cur = (if first \<or> (h' = [] \<and> md' \<noteq> []) then [SYSTEM_MESSAGE_webhook] else h')
                   @ [turn ''user'' utext]"
  define pre where "pre = (if context_bot_set env then [SendChatAction (msg_chat_id msg)] else [])
                   @ (if async_container_client_set env
                      then [ReadItem (str_int (msg_chat_id msg))] else [])"
  have p: "prepare_and_truncate_history_for_llm cur MAX_CONVERSATION_MESSAGES = Inr w'"
    using a by (simp add: cur_def first_def)
  have "llm_message_handler_webhook env update =
           (pre @ replicate (typing_sends env) (SendChatAction (msg_chat_id msg)) @ tr'
            @ fst (save_chat_history_to_cosmos_webhook env (msg_chat_id msg)
                     (cur @ [turn ''assistant'' reply'])
                     (usr_id (upd_effective_user update))
                     (usr_username (upd_effective_user update))
                     first (if \<not> first then Some md' else None))
            @ [ReplyText reply'],
            reply_text env reply')"
    using llm_message_handler_webhook_accepts[OF m t ne le _ first_def cur_def pre_def] a p
    by (simp add: Let_def)
  then show "llm_message_handler_webhook env update =
           ((if context_bot_set env then [SendChatAction (msg_chat_id msg)] else [])
            @ (if async_container_client_set env
               then [ReadItem (str_int (msg_chat_id msg))] else [])
            @ replicate (typing_sends env) (SendChatAction (msg_chat_id msg)) @ tr'
            @ fst (save_chat_history_to_cosmos_webhook env (msg_chat_id msg)
                     ((if (h' = [] \<and> md' = []) \<or> (h' = [] \<and> md' \<noteq> [])
                       then [SYSTEM_MESSAGE_webhook] else h')
                      @ [turn ''user'' utext, turn ''assistant'' reply'])
                     (usr_id (upd_effective_user update))
                     (usr_username (upd_effective_user update))
                     (h' = [] \<and> md' = [])
                     (if \<not> (h' = [] \<and> md' = []) then Some md' else None))
            @ [ReplyText reply'],
            reply_text env reply')"
    unfolding cur_def first_def pre_def by simp
qed

text \<open>
  A first interaction in \<open>bot.py\<close>, and in the webhook handler a chat whose document has
  metadata and no usable history.
\<close>

theorem first_interaction_and_save_witness:
  "upd_message (demo_update ''hi'') = Some (demo_msg ''hi'')
   \<and> msg_text (demo_msg ''hi'') = Some ''hi'' \<and> ''hi'' \<noteq> []
   \<and> int (length ''hi'') \<le> MAX_USER_MESSAGE_LENGTH
   \<and> snd (get_chat_history_from_cosmos demo_env 42) = Inr ([], [])
   \<and> prepare_and_truncate_history_for_llm
        [turn ''system'' ''be brief'', turn ''user'' ''hi''] MAX_CONVERSATION_MESSAGES
       = Inr [turn ''system'' ''be brief'', turn ''user'' ''hi'']
   \<and> reply_text demo_env THINKING_TEXT = Inr ()
   \<and> get_llm_response_from_openrouter demo_env
        [turn ''system'' ''be brief'', turn ''user'' ''hi'']
       = ([CreateCompletion ''mistralai/mistral-small-3.1-24b-instruct''
             [turn ''system'' ''be brief'', turn ''user'' ''hi'']], Inr ''hi'')
   \<and> written_documents (fst (llm_message_handler demo_env (demo_update ''hi'')))
       = written_documents (fst (save_chat_history_to_cosmos demo_env 42
           [turn ''system'' ''be brief'', turn ''user'' ''hi'', turn ''assistant'' ''hi'']
           7 (Some ''bob'') True None))
   \<and> snd (get_chat_history_from_cosmos_webhook demo_env_stored 42)
       = Inr ([], [(''id'', JStr ''42''), (''creator_user_id'', JStr ''7'')])
   \<and> prepare_and_truncate_history_for_llm
        [turn ''system'' [], turn ''user'' ''hi''] MAX_CONVERSATION_MESSAGES
       = Inr [turn ''system'' [], turn ''user'' ''hi'']
   \<and> get_llm_response_from_openrouter_webhook demo_env_stored
        [turn ''system'' [], turn ''user'' ''hi'']
       = ([CreateCompletion ''meta-llama/llama-4-maverick''
             [turn ''system'' [], turn ''user'' ''hi'']], Inr ''hi'')
   \<and> written_documents (fst (llm_message_handler_webhook demo_env_stored (demo_update ''hi'')))
       = written_documents (fst (save_chat_history_to_cosmos_webhook demo_env_stored 42
           [turn ''system'' [], turn ''user'' ''hi'', turn ''assistant'' ''hi'']
           7 (Some ''bob'') False
           (Some [(''id'', JStr ''42''), (''creator_user_id'', JStr ''7'')])))"
  using first_interaction_and_save [where update = "demo_update ''hi''"
      and msg = "demo_msg ''hi''" and utext = "''hi''" and env = demo_env
      and h = "[]" and md = "[]"
      and w = "[turn ''system'' ''be brief'', turn ''user'' ''hi'']"
      and tr = "[CreateCompletion ''mistralai/mistral-small-3.1-24b-instruct''
             [turn ''system'' ''be brief'', turn ''user'' ''hi'']]"
      and reply = "''hi''"]
    first_interaction_and_save [where update = "demo_update ''hi''"
      and msg = "demo_msg ''hi''" and utext = "''hi''" and env = demo_env_stored
      and h' = "[]" and md' = "[(''id'', JStr ''42''), (''creator_user_id'', JStr ''7'')]"
      and w' = "[turn ''system'' [], turn ''user'' ''hi'']"
      and tr' = "[CreateCompletion ''meta-llama/llama-4-maverick''
             [turn ''system'' [], turn ''user'' ''hi'']]"
      and res' = "Inr ''hi''" and reply' = "''hi''"]
  by (simp add: run_defs demo_env_def demo_env_stored_def stored_doc_def demo_update_def
      demo_msg_def str_int_42 str_int_7 written_documents_def)

section \<open>Claims about the completion client and the entry point\<close>

lemma preview_entry_ok: "previewable m \<Longrightarrow> preview_entry k m = Inr ()"
  by (cases m) (auto simp: preview_entry_def split: option.splits json.splits)

lemma preview_all_ok: "list_all previewable ms \<Longrightarrow> preview_all k ms = Inr ()"
  by (induction ms) (auto simp: preview_entry_ok)

lemma bind_lift_Inr: "bind_io (lift_io (Inr a)) f = f a"
  by (simp add: bind_io_def lift_io_def split: prod.splits)

lemma completion_result:
  "catch_io
     (bind_io (call_io (CreateCompletion model msgs) (create_completion env model msgs))
        (\<lambda>chat_completion.
           bind_io (lift_io (response_content_of chat_completion))
             (\<lambda>response_content. return_io (strip response_content))))
     (\<lambda>e. return_io LLM_FALLBACK)
   = ([CreateCompletion model msgs], Inr (completion_text (create_completion env model msgs)))"
  by (cases "create_completion env model msgs")
     (auto simp: io_defs completion_text_def response_content_of_def
           split: list.splits option.splits)

text \<open>
  The completion client on messages that the log preview can read: when each of the last
  five messages (three in the webhook handler) is a dictionary with a \<open>role\<close> key and a
  \<open>content\<close> key holding a string or a list, the client makes the completion call and
  returns without an exception: the fixed fallback string when the call raises (or returns
  no choice, or no text), the stripped text of the first choice otherwise. The webhook
  variant without a client returns its client error string and makes no call.
\<close>

lemma completion_never_raises:
  "(list_all previewable (py_slice_from (- 5) msgs) \<longrightarrow>
      get_llm_response_from_openrouter env msgs =
        ([CreateCompletion ''mistralai/mistral-small-3.1-24b-instruct'' msgs],
         Inr (completion_text
                (create_completion env ''mistralai/mistral-small-3.1-24b-instruct'' msgs))))
   \<and> (\<not> openrouter_client_set env \<longrightarrow>
        get_llm_response_from_openrouter_webhook env msgs = ([], Inr LLM_CLIENT_ERROR))
   \<and> (openrouter_client_set env \<and> list_all previewable (py_slice_from (- 3) msgs) \<longrightarrow>
        get_llm_response_from_openrouter_webhook env msgs =
          ([CreateCompletion ''meta-llama/llama-4-maverick'' msgs],
           Inr (completion_text
                  (create_completion env ''meta-llama/llama-4-maverick'' msgs))))"
proof (intro conjI impI)
  assume "list_all previewable (py_slice_from (- 5) msgs)"
  then have "log_history_preview 5 30 msgs = Inr ()"
    by (simp add: log_history_preview_def preview_all_ok)
  then show "get_llm_response_from_openrouter env msgs =
        ([CreateCompletion ''mistralai/mistral-small-3.1-24b-instruct'' msgs],
         Inr (completion_text
                (create_completion env ''mistralai/mistral-small-3.1-24b-instruct'' msgs)))"
    by (simp add: get_llm_response_from_openrouter_def Let_def bind_lift_Inr
        completion_result)
next
  assume "\<not> openrouter_client_set env"
  then show "get_llm_response_from_openrouter_webhook env msgs = ([], Inr LLM_CLIENT_ERROR)"
    by (simp add: get_llm_response_from_openrouter_webhook_def return_io_def)
next
  assume a: "openrouter_client_set env \<and> list_all previewable (py_slice_from (- 3) msgs)"
  then have "log_history_preview 3 20 msgs = Inr ()"
    by (simp add: log_history_preview_def preview_all_ok)
  then show "get_llm_response_from_openrouter_webhook env msgs =
          ([CreateCompletion ''meta-llama/llama-4-maverick'' msgs],
           Inr (completion_text
                  (create_completion env ''meta-llama/llama-4-maverick'' msgs)))"
    using a
    by (simp add: get_llm_response_from_openrouter_webhook_def Let_def bind_lift_Inr
        completion_result)
qed

text \<open>A completion that answers, a missing client, and a completion call that raises.\<close>

lemma completion_never_raises_example:
  "list_all previewable (py_slice_from (- 5) [turn ''user'' ''hi''])
   \<and> get_llm_response_from_openrouter demo_env [turn ''user'' ''hi'']
       = ([CreateCompletion ''mistralai/mistral-small-3.1-24b-instruct'' [turn ''user'' ''hi'']],
          Inr ''hi'')
   \<and> \<not> openrouter_client_set (demo_env\<lparr>openrouter_client_set := False\<rparr>)
   \<and> get_llm_response_from_openrouter_webhook (demo_env\<lparr>openrouter_client_set := False\<rparr>)
        [turn ''user'' ''hi''] = ([], Inr LLM_CLIENT_ERROR)
   \<and> openrouter_client_set (demo_env\<lparr>create_completion := (\<lambda>m h. Inl OtherException)\<rparr>)
   \<and> list_all previewable (py_slice_from (- 3) [turn ''user'' ''hi''])
   \<and> get_llm_response_from_openrouter_webhook
        (demo_env\<lparr>create_completion := (\<lambda>m h. Inl OtherException)\<rparr>) [turn ''user'' ''hi'']
       = ([CreateCompletion ''meta-llama/llama-4-maverick'' [turn ''user'' ''hi'']],
          Inr LLM_FALLBACK)"
  using completion_never_raises [of "[turn ''user'' ''hi'']" demo_env]
    completion_never_raises [of "[turn ''user'' ''hi'']"
      "demo_env\<lparr>openrouter_client_set := False\<rparr>"]
    completion_never_raises [of "[turn ''user'' ''hi'']"
      "demo_env\<lparr>create_completion := (\<lambda>m h. Inl OtherException)\<rparr>"]
  by (simp add: demo_env_def turn_def py_slice_from_def completion_text_def strip_def
      isspace_def)

text \<open>
  Claim C5 says that \<open>get_llm_response_from_openrouter\<close> never lets an exception reach
  its caller. The code computes its log preview before the \<open>try\<close> that holds the
  catch-all: for a message list with an entry without a \<open>content\<close> key, \<open>KeyError\<close>
  leaves both variants, before any completion call. The chat's stored history holds such
  an entry and the user writes \<open>hi\<close>: the handler of \<open>bot.py\<close>, which calls the client
  unguarded, ends with that \<open>KeyError\<close> after its placeholder reply, without a save and
  without an answer; the webhook handler catches it, saves the turn and answers with its
  fixed text.
\<close>

theorem completion_preview_escapes:
  "get_llm_response_from_openrouter demo_env
     [turn ''system'' ''be brief'', JObj [(''role'', JStr ''user'')], turn ''user'' ''hi'']
     = ([], Inl (KeyError ''content''))
   \<and> get_llm_response_from_openrouter_webhook demo_env
     [turn ''system'' [], JObj [(''role'', JStr ''user'')], turn ''user'' ''hi'']
     = ([], Inl (KeyError ''content''))
   \<and> llm_message_handler demo_env_foreign (demo_update ''hi'')
     = ([ReadItem ''42'', ReplyText THINKING_TEXT], Inl (KeyError ''content''))
   \<and> map is_store_event
        (fst (llm_message_handler_webhook demo_env_foreign (demo_update ''hi'')))
     = [False, True, False, True, False]
   \<and> last (fst (llm_message_handler_webhook demo_env_foreign (demo_update ''hi'')))
     = ReplyText SOMETHING_WENT_WRONG
   \<and> snd (llm_message_handler_webhook demo_env_foreign (demo_update ''hi'')) = Inr ()"
  by (simp add: run_defs demo_env_def demo_env_foreign_def foreign_doc_def demo_update_def
      demo_msg_def str_int_42 str_int_7)

lemma initialize_ptb_application_result:
  "initialize_ptb_application p g =
     (if TELEGRAM_BOT_TOKEN g = None \<or> TELEGRAM_BOT_TOKEN g = Some [] then g
      else if isl (build_and_initialize p)
      then g\<lparr>ptb_application := None, ptb_bot_instance := None\<rparr>
      else g\<lparr>ptb_application := Some Application, ptb_bot_instance := Some Bot\<rparr>)"
  by (cases "build_and_initialize p")
     (auto simp: initialize_ptb_application_def split: option.splits)

text \<open>
  Claim C6, with its cases in the order in which \<open>main\<close> checks them. The response
  status is 500 when the critical secrets were missing at startup or the lazy PTB
  initialization fails; otherwise 400 when the request body is not valid JSON; otherwise
  200, both when processing the update succeeds and when it raises. The hypothesis holds
  after startup and after every request (the two lemmas that follow).
\<close>

theorem main_status_codes:
  assumes "bot_with_application g"
  shows "status_code (snd (main p g req)) =
           (if critical_secrets_missing g \<or> lazy_init_fails p g then 500
            else if get_json req = None then 400
            else 200)"
  using assms
  by (cases "get_json req")
     (auto simp: main_def Let_def initialize_ptb_application_result lazy_init_fails_def
        bot_with_application_def split: sum.splits)

lemma main_keeps_bot_with_application:
  "bot_with_application g \<Longrightarrow> bot_with_application (fst (main p g req))"
  by (cases "get_json req")
     (auto simp: main_def Let_def initialize_ptb_application_result
        bot_with_application_def split: sum.splits)

lemma startup_bot_with_application:
  "bot_with_application (startup_globals token openrouter_key cosmos_uri cosmos_key clients_built)"
  by (simp add: bot_with_application_def startup_globals_def)

text \<open>
  Missing token; failing initialization; invalid body; an update whose processing raises;
  and a second request, on the initialized application, whose processing succeeds.
\<close>

theorem main_status_codes_witness:
  "bot_with_application demo_globals
   \<and> bot_with_application (startup_globals None (Some ''k'') (Some ''u'') (Some ''c'') True)
   \<and> bot_with_application (fst (main demo_ptb demo_globals \<lparr>get_json = Some (JObj [])\<rparr>))
   \<and> status_code (snd (main demo_ptb
         (startup_globals None (Some ''k'') (Some ''u'') (Some ''c'') True)
         \<lparr>get_json = None\<rparr>)) = 500
   \<and> status_code (snd (main (demo_ptb\<lparr>build_and_initialize := Inl OtherException\<rparr>)
         demo_globals \<lparr>get_json = Some (JObj [])\<rparr>)) = 500
   \<and> status_code (snd (main demo_ptb demo_globals \<lparr>get_json = None\<rparr>)) = 400
   \<and> status_code (snd (main demo_ptb demo_globals \<lparr>get_json = Some (JObj [])\<rparr>)) = 200
   \<and> status_code (snd (main (demo_ptb\<lparr>process_update := (\<lambda>u. Inr ())\<rparr>)
         (fst (main demo_ptb demo_globals \<lparr>get_json = Some (JObj [])\<rparr>))
         \<lparr>get_json = Some (JObj [])\<rparr>)) = 200"
  using main_status_codes [of "startup_globals None (Some ''k'') (Some ''u'') (Some ''c'') True"
      demo_ptb "\<lparr>get_json = None\<rparr>"]
    main_status_codes [of demo_globals "demo_ptb\<lparr>build_and_initialize := Inl OtherException\<rparr>"
      "\<lparr>get_json = Some (JObj [])\<rparr>"]
    main_status_codes [of demo_globals demo_ptb "\<lparr>get_json = None\<rparr>"]
    main_status_codes [of demo_globals demo_ptb "\<lparr>get_json = Some (JObj [])\<rparr>"]
    main_status_codes [of "fst (main demo_ptb demo_globals \<lparr>get_json = Some (JObj [])\<rparr>)"
      "demo_ptb\<lparr>process_update := (\<lambda>u. Inr ())\<rparr>" "\<lparr>get_json = Some (JObj [])\<rparr>"]
  by (simp add: demo_globals_def startup_globals_def missing_def demo_ptb_def
      bot_with_application_def lazy_init_fails_def main_def Let_def
      initialize_ptb_application_def)

section \<open>Claims about the liveness signaler\<close>

lemma signaler_result:
  "send_typing_periodically b c ticks = Some (t, r) \<Longrightarrow>
     r = Inr () \<and> t = replicate (length t) (SendChatAction c)"
proof (induction ticks arbitrary: t r)
  case Nil
  then show ?case by simp
next
  case (Cons tk rest)
  show ?case
  proof (cases "send_typing_periodically b c rest")
    case None
    with Cons.prems show ?thesis
      by (auto split: if_splits sum.splits)
  next
    case (Some p)
    obtain t' r' where p: "p = (t', r')" by (cases p)
    have ih: "r' = Inr () \<and> t' = replicate (length t') (SendChatAction c)"
      using Cons.IH Some p by simp
    with Cons.prems Some p show ?thesis
      by (auto split: if_splits sum.splits)
  qed
qed

lemma signaler_ends:
  assumes "k < length ticks"
    and "stop_at_test (ticks ! k)
         \<or> (send_outcome (ticks ! k) = Inr () \<and> stop_in_wait (ticks ! k))
         \<or> (\<exists>e. send_outcome (ticks ! k) = Inl e \<and> e \<noteq> AsyncioTimeoutError)"
  shows "\<exists>t. send_typing_periodically b c ticks = Some (t, Inr ()) \<and> length t \<le> Suc k"
  using assms
proof (induction ticks arbitrary: k)
  case Nil
  then show ?case by simp
next
  case (Cons tk rest)
  show ?case
  proof (cases k)
    case 0
    with Cons.prems show ?thesis by (auto split: sum.splits)
  next
    case (Suc j)
    then have "\<exists>t. send_typing_periodically b c rest = Some (t, Inr ()) \<and> length t \<le> Suc j"
      using Cons.IH[of j] Cons.prems by simp
    then obtain t where t: "send_typing_periodically b c rest = Some (t, Inr ())"
      and l: "length t \<le> Suc j" by blast
    show ?thesis using t l Suc by (auto split: sum.splits)
  qed
qed

lemma signaler_stop_at_test:
  assumes "k < length ticks" and "stop_at_test (ticks ! k)"
  shows "\<exists>t. send_typing_periodically b c ticks = Some (t, Inr ()) \<and> length t \<le> k"
  using assms
proof (induction ticks arbitrary: k)
  case Nil
  then show ?case by simp
next
  case (Cons tk rest)
  show ?case
  proof (cases k)
    case 0
    with Cons.prems show ?thesis by simp
  next
    case (Suc j)
    then have "\<exists>t. send_typing_periodically b c rest = Some (t, Inr ()) \<and> length t \<le> j"
      using Cons.IH[of j] Cons.prems by simp
    then obtain t where t: "send_typing_periodically b c rest = Some (t, Inr ())"
      and l: "length t \<le> j" by blast
    show ?thesis using t l Suc by (auto split: sum.splits)
  qed
qed

text \<open>
  Claim C9. The signaler never lets an exception reach its caller, and all it does is send
  typing actions. It ends at the first loop test or wait that sees the stop event: with the
  event seen at the test of pass \<open>k\<close> (counted from 0) after at most \<open>k\<close> sends, with
  the event seen by the wait of pass \<open>k\<close> after at most \<open>k + 1\<close>. So when the stop event
  is set in the course of pass \<open>k\<close> and stays set, the loop is over at the next test at
  the latest, whatever the send of that pass does: after the event is set there is at most
  the send and the wait of the pass in progress, and no wait runs out its four seconds.
  A delivery error in pass \<open>k\<close> ends the loop there (the Telegram library reports its
  errors, timeouts among them, with classes of its own, not as \<open>asyncio.TimeoutError\<close>).
\<close>

theorem signaler_stops:
  "(send_typing_periodically b c ticks = Some (t, r) \<longrightarrow>
      r = Inr () \<and> t = replicate (length t) (SendChatAction c))
   \<and> (k < length ticks \<and> stop_at_test (ticks ! k) \<longrightarrow>
        (\<exists>t'. send_typing_periodically b c ticks = Some (t', Inr ()) \<and> length t' \<le> k))
   \<and> (k < length ticks \<and> send_outcome (ticks ! k) = Inr () \<and> stop_in_wait (ticks ! k) \<longrightarrow>
        (\<exists>t'. send_typing_periodically b c ticks = Some (t', Inr ()) \<and> length t' \<le> Suc k))
   \<and> (Suc k < length ticks \<and> stop_in_wait (ticks ! k) \<and> stop_at_test (ticks ! Suc k) \<longrightarrow>
        (\<exists>t'. send_typing_periodically b c ticks = Some (t', Inr ()) \<and> length t' \<le> Suc k))
   \<and> (k < length ticks \<and> send_outcome (ticks ! k) = Inl e \<and> e \<noteq> AsyncioTimeoutError \<longrightarrow>
        (\<exists>t'. send_typing_periodically b c ticks = Some (t', Inr ()) \<and> length t' \<le> Suc k))"
proof (intro conjI impI)
  assume "send_typing_periodically b c ticks = Some (t, r)"
  then show "r = Inr ()" and "t = replicate (length t) (SendChatAction c)"
    using signaler_result[of b c ticks t r] by simp_all
next
  assume "k < length ticks \<and> stop_at_test (ticks ! k)"
  then show "\<exists>t'. send_typing_periodically b c ticks = Some (t', Inr ()) \<and> length t' \<le> k"
    using signaler_stop_at_test[of k ticks b c] by simp
next
  assume "k < length ticks \<and> send_outcome (ticks ! k) = Inr () \<and> stop_in_wait (ticks ! k)"
  then show "\<exists>t'. send_typing_periodically b c ticks = Some (t', Inr ()) \<and> length t' \<le> Suc k"
    using signaler_ends[of k ticks b c] by simp
next
  assume a: "Suc k < length ticks \<and> stop_in_wait (ticks ! k) \<and> stop_at_test (ticks ! Suc k)"
  show "\<exists>t'. send_typing_periodically b c ticks = Some (t', Inr ()) \<and> length t' \<le> Suc k"
    using signaler_stop_at_test[of "Suc k" ticks b c] a by simp
next
  assume "k < length ticks \<and> send_outcome (ticks ! k) = Inl e \<and> e \<noteq> AsyncioTimeoutError"
  then show "\<exists>t'. send_typing_periodically b c ticks = Some (t', Inr ()) \<and> length t' \<le> Suc k"
    using signaler_ends[of k ticks b c] by blast
qed

text \<open>The four passes of \<open>demo_ticks\<close>: the loop ends in the third.\<close>

theorem signaler_stops_witness:
  "send_typing_periodically True 42 demo_ticks
     = Some ([SendChatAction 42, SendChatAction 42, SendChatAction 42], Inr ())
   \<and> (2::nat) < length demo_ticks
   \<and> send_outcome (demo_ticks ! 2) = Inr () \<and> stop_in_wait (demo_ticks ! 2)
   \<and> Suc 2 < length demo_ticks \<and> stop_at_test (demo_ticks ! Suc 2)
   \<and> (3::nat) < length demo_ticks \<and> stop_at_test (demo_ticks ! 3)
   \<and> send_outcome (demo_ticks ! 3) = Inl OtherException
   \<and> OtherException \<noteq> AsyncioTimeoutError
   \<and> length [SendChatAction 42, SendChatAction 42, SendChatAction 42] \<le> Suc 2"
  using signaler_stops [of True 42 demo_ticks
      "[SendChatAction 42, SendChatAction 42, SendChatAction 42]" "Inr ()" 2 OtherException]
    signaler_stops [of True 42 demo_ticks
      "[SendChatAction 42, SendChatAction 42, SendChatAction 42]" "Inr ()" 3 OtherException]
  by (simp add: demo_ticks_def)

text \<open>
  A delivery error in the first pass, and a send that raises \<open>asyncio.TimeoutError\<close>
  itself: the clause meant for the wait passes it over, and the loop sends again at once.
\<close>

lemma signaler_delivery_error:
  "send_typing_periodically True 42
     [\<lparr>stop_at_test = False, send_outcome = Inl OtherException, stop_in_wait = False\<rparr>]
   = Some ([SendChatAction 42], Inr ())
   \<and> send_typing_periodically True 42
     [\<lparr>stop_at_test = False, send_outcome = Inl AsyncioTimeoutError, stop_in_wait = False\<rparr>,
      \<lparr>stop_at_test = False, send_outcome = Inr (), stop_in_wait = True\<rparr>]
   = Some ([SendChatAction 42, SendChatAction 42], Inr ())"
  by simp

end
